theory Spec2Isabelle
  imports
    Complex_Main
    "HOL-Library.Char_ord"
    "HOL-Library.List_Lexorder"
    "HOL-Library.Product_Lexorder"
    "HOL-Library.Sublist"
    "HOL-Library.Monad_Syntax"
begin

section \<open>Cells: numbers with missing values, and dates\<close>

text \<open>
  A numeric cell of a pandas table is a float64. The special values are modelled as they
  are (\<open>NaN\<close> is the null of a numeric column; \<open>PInf\<close>, \<open>NInf\<close> are the infinities that
  a division by zero produces); finite values are idealised as exact reals, so rounding,
  overflow and the sign of zero are outside the model (a zero divisor counts as \<open>+0\<close>).
\<close>

datatype fval = Fin real | PInf | NInf | NaN

text \<open>\<open>a > b\<close> on a numeric column: every comparison with a null is False.\<close>

fun fgt :: "fval \<Rightarrow> fval \<Rightarrow> bool" where
  "fgt (Fin a) (Fin b) = (b < a)"
| "fgt (Fin a) NInf = True"
| "fgt PInf (Fin b) = True"
| "fgt PInf NInf = True"
| "fgt _ _ = False"

fun fneg :: "fval \<Rightarrow> fval" where
  "fneg (Fin a) = Fin (- a)"
| "fneg PInf = NInf"
| "fneg NInf = PInf"
| "fneg NaN = NaN"

fun fadd :: "fval \<Rightarrow> fval \<Rightarrow> fval" where
  "fadd (Fin a) (Fin b) = Fin (a + b)"
| "fadd NaN _ = NaN"
| "fadd _ NaN = NaN"
| "fadd PInf NInf = NaN"
| "fadd NInf PInf = NaN"
| "fadd PInf _ = PInf"
| "fadd _ PInf = PInf"
| "fadd NInf _ = NInf"
| "fadd _ NInf = NInf"

definition fsub :: "fval \<Rightarrow> fval \<Rightarrow> fval" where
  "fsub a b = fadd a (fneg b)"

text \<open>The sign of an infinite or finite value: 1, -1, or 0 for a zero.\<close>

fun fsgn :: "fval \<Rightarrow> int" where
  "fsgn (Fin a) = (if 0 < a then 1 else if a < 0 then - 1 else 0)"
| "fsgn PInf = 1"
| "fsgn NInf = - 1"
| "fsgn NaN = 0"

definition inf_of_sign :: "int \<Rightarrow> fval" where
  "inf_of_sign s = (if 0 < s then PInf else if s < 0 then NInf else NaN)"

fun fmul :: "fval \<Rightarrow> fval \<Rightarrow> fval" where
  "fmul (Fin a) (Fin b) = Fin (a * b)"
| "fmul NaN _ = NaN"
| "fmul _ NaN = NaN"
| "fmul a b = inf_of_sign (fsgn a * fsgn b)"

fun fdiv :: "fval \<Rightarrow> fval \<Rightarrow> fval" where
  "fdiv (Fin a) (Fin b) = (if b = 0 then inf_of_sign (fsgn (Fin a)) else Fin (a / b))"
| "fdiv NaN _ = NaN"
| "fdiv _ NaN = NaN"
| "fdiv (Fin a) _ = Fin 0"
| "fdiv PInf (Fin b) = (if b < 0 then NInf else PInf)"
| "fdiv NInf (Fin b) = (if b < 0 then PInf else NInf)"
| "fdiv _ _ = NaN"

definition isna :: "fval \<Rightarrow> bool" where
  "isna v = (v = NaN)"

text \<open>
  A date cell is a timestamp at day resolution: the number of days since 1970-01-01.
  Date cells and instrument codes are never null in the model (a table whose key cell is
  missing is outside it).
\<close>

type_synonym date = int

text \<open>
  The proleptic Gregorian calendar, as the timestamp arithmetic of the table library
  uses it: \<open>civil_from_days\<close> gives (year, month, day) of a day number and
  \<open>days_from_civil\<close> is its inverse.
\<close>

definition days_from_civil :: "int \<Rightarrow> int \<Rightarrow> int \<Rightarrow> date" where
  "days_from_civil y m d =
     (let y' = (if m \<le> 2 then y - 1 else y);
          era = y' div 400;
          yoe = y' - era * 400;
          mp = (m + 9) mod 12;
          doy = (153 * mp + 2) div 5 + d - 1;
          doe = yoe * 365 + yoe div 4 - yoe div 100 + doy
      in era * 146097 + doe - 719468)"

definition civil_from_days :: "date \<Rightarrow> int \<times> int \<times> int" where
  "civil_from_days z =
     (let z' = z + 719468;
          era = z' div 146097;
          doe = z' - era * 146097;
          yoe = (doe - doe div 1460 + doe div 36524 - doe div 146096) div 365;
          doy = doe - (365 * yoe + yoe div 4 - yoe div 100);
          mp = (5 * doy + 2) div 153;
          d = doy - (153 * mp + 2) div 5 + 1;
          m = (if mp < 10 then mp + 3 else mp - 9);
          y = yoe + era * 400
      in (if m \<le> 2 then y + 1 else y, m, d))"

definition is_leap :: "int \<Rightarrow> bool" where
  "is_leap y = (y mod 4 = 0 \<and> (y mod 100 \<noteq> 0 \<or> y mod 400 = 0))"

definition days_in_month :: "int \<Rightarrow> int \<Rightarrow> int" where
  "days_in_month y m =
     (if m = 2 then (if is_leap y then 29 else 28)
      else if m = 4 \<or> m = 6 \<or> m = 9 \<or> m = 11 then 30 else 31)"

text \<open>
  \<^verbatim>\<open>ts + pd.DateOffset(months=n)\<close>: the month moves by \<open>n\<close>, the day of the month is kept
  and clipped to the last day of the target month.
\<close>

definition add_months :: "int \<Rightarrow> date \<Rightarrow> date" where
  "add_months n z =
     (case civil_from_days z of (y, m, d) \<Rightarrow>
        (let total = y * 12 + (m - 1) + n;
             y' = total div 12;
             m' = total mod 12 + 1
         in days_from_civil y' m' (min d (days_in_month y' m'))))"

text \<open>\<^verbatim>\<open>ts + pd.Timedelta(days=n)\<close>.\<close>

definition add_days :: "int \<Rightarrow> date \<Rightarrow> date" where
  "add_days n z = z + n"

definition year_of :: "date \<Rightarrow> int" where
  "year_of z = (case civil_from_days z of (y, m, d) \<Rightarrow> y)"

definition quarter_of :: "date \<Rightarrow> int" where
  "quarter_of z = (case civil_from_days z of (y, m, d) \<Rightarrow> (m - 1) div 3 + 1)"

section \<open>Table operations of the library\<close>

text \<open>
  A table is the list of its rows, in row order. \<^verbatim>\<open>sort_values\<close> is modelled as a stable
  sort by the key columns (the order the library gives to rows with equal keys is not
  fixed by the source, which asks for the default algorithm; no statement below depends
  on it).
\<close>

definition sort_values :: "('r \<Rightarrow> 'k::linorder) \<Rightarrow> 'r list \<Rightarrow> 'r list" where
  "sort_values key rows = sort_key key rows"

text \<open>
  \<^verbatim>\<open>groupby(key)[col].f()\<close> for a transformation \<open>f\<close> (shift, pct_change): the column is
  split by key, \<open>f\<close> is applied to the values of each group in row order, and each result is
  put back at the row it came from. \<open>assign_groups\<close> walks the rows and hands the row at
  position \<open>cnt k\<close> of group \<open>k\<close> that group's value.
\<close>

fun assign_groups :: "('r \<Rightarrow> 'k) \<Rightarrow> ('k \<Rightarrow> 'v list) \<Rightarrow> ('k \<Rightarrow> nat) \<Rightarrow> 'r list \<Rightarrow> 'v list" where
  "assign_groups key F cnt [] = []"
| "assign_groups key F cnt (r # rs) =
     (F (key r) ! cnt (key r)) # assign_groups key F (cnt(key r := Suc (cnt (key r)))) rs"

definition groupby_transform ::
  "('r \<Rightarrow> 'k) \<Rightarrow> ('r \<Rightarrow> 'a) \<Rightarrow> ('a list \<Rightarrow> 'v list) \<Rightarrow> 'r list \<Rightarrow> 'v list" where
  "groupby_transform key col f rows =
     assign_groups key (\<lambda>k. f (map col (filter (\<lambda>r. key r = k) rows))) (\<lambda>k. 0) rows"

text \<open>\<^verbatim>\<open>shift(n)\<close> on one group: the value \<open>n\<close> rows earlier, null for the first \<open>n\<close> rows.\<close>

definition shift :: "nat \<Rightarrow> fval list \<Rightarrow> fval list" where
  "shift n xs = replicate (min n (length xs)) NaN @ take (length xs - n) xs"

text \<open>\<^verbatim>\<open>ffill()\<close> on one group: a null takes the last value before it that is not null.\<close>

fun ffill_from :: "fval \<Rightarrow> fval list \<Rightarrow> fval list" where
  "ffill_from prev [] = []"
| "ffill_from prev (x # xs) = (let y = (if isna x then prev else x) in y # ffill_from y xs)"

definition ffill :: "fval list \<Rightarrow> fval list" where
  "ffill xs = ffill_from NaN xs"

text \<open>
  \<^verbatim>\<open>pct_change(periods=n)\<close> on one group is \<^verbatim>\<open>filled / filled.shift(n) - 1\<close>. Whether
  \<open>filled\<close> is the forward-filled column or the column itself is the default of the
  library's \<^verbatim>\<open>fill_method\<close>, which changed between its versions; it is the parameter
  \<open>pad\<close> here.
\<close>

definition filled :: "bool \<Rightarrow> fval list \<Rightarrow> fval list" where
  "filled pad xs = (if pad then ffill xs else xs)"

definition pct_change :: "bool \<Rightarrow> nat \<Rightarrow> fval list \<Rightarrow> fval list" where
  "pct_change pad n xs =
     map2 (\<lambda>a b. fsub (fdiv a b) (Fin 1)) (filled pad xs) (shift n (filled pad xs))"

text \<open>
  \<^verbatim>\<open>pd.merge_asof(left, right, left_on, right_on, by, direction)\<close> on tables sorted by their
  \<open>on\<close> key: one output row per left row, in left order, carrying the matched right row or
  nulls. \<open>forward\<close> takes the first right row of the same \<open>by\<close> key whose \<open>on\<close> key is at or
  after the left one, \<open>backward\<close> the last one at or before it.
\<close>

definition merge_asof_forward ::
  "('l \<Rightarrow> 'k) \<Rightarrow> ('l \<Rightarrow> date) \<Rightarrow> ('r \<Rightarrow> 'k) \<Rightarrow> ('r \<Rightarrow> date) \<Rightarrow> 'l list \<Rightarrow> 'r list
     \<Rightarrow> ('l \<times> 'r option) list" where
  "merge_asof_forward lby lon rby ron left right =
     map (\<lambda>l. (l, find (\<lambda>r. rby r = lby l \<and> lon l \<le> ron r) right)) left"

definition merge_asof_backward ::
  "('l \<Rightarrow> 'k) \<Rightarrow> ('l \<Rightarrow> date) \<Rightarrow> ('r \<Rightarrow> 'k) \<Rightarrow> ('r \<Rightarrow> date) \<Rightarrow> 'l list \<Rightarrow> 'r list
     \<Rightarrow> ('l \<times> 'r option) list" where
  "merge_asof_backward lby lon rby ron left right =
     map (\<lambda>l. (l, find (\<lambda>r. rby r = lby l \<and> ron r \<le> lon l) (rev right))) left"

section \<open>The tables of the pipeline\<close>

text \<open>
  A trading row (\<^verbatim>\<open>TRD_Dalyr\<close>): the columns the code names, the remaining numeric columns
  of the file (\<open>t_other\<close>), and the columns \<^verbatim>\<open>year\<close>, \<^verbatim>\<open>quarter\<close> that \<^verbatim>\<open>count_num\<close> adds
  (\<open>None\<close>: the table has no such column).
\<close>

record stk_row =
  t_Stkcd :: string
  Trddt :: date
  Hiprc :: fval
  Loprc :: fval
  Clsprc :: fval
  t_other :: "fval list"
  year :: "int option"
  quarter :: "int option"

text \<open>A disclosure row (\<^verbatim>\<open>IAR_Rept\<close>).\<close>

record pft_row =
  d_Stkcd :: string
  Reptyp :: string
  Accper :: date
  Annodt :: date
  Profita :: fval
  d_other :: "fval list"

text \<open>\<^verbatim>\<open>dropna()\<close>: a row stays when none of its cells is null.\<close>

definition stk_complete :: "stk_row \<Rightarrow> bool" where
  "stk_complete t = (\<not> isna (Hiprc t) \<and> \<not> isna (Loprc t) \<and> \<not> isna (Clsprc t)
                      \<and> list_all (\<lambda>v. \<not> isna v) (t_other t))"

definition pft_complete :: "'a pft_row_scheme \<Rightarrow> bool" where
  "pft_complete d = (\<not> isna (Profita d) \<and> list_all (\<lambda>v. \<not> isna v) (d_other d))"

definition dropna_stk :: "stk_row list \<Rightarrow> stk_row list" where
  "dropna_stk rows = filter stk_complete rows"

definition dropna_pft :: "pft_row list \<Rightarrow> pft_row list" where
  "dropna_pft rows = filter pft_complete rows"

section \<open>Gap Event Detector: \<^verbatim>\<open>filter_data\<close>\<close>

text \<open>A trading row with the column \<^verbatim>\<open>prev_Hiprc\<close> beside it.\<close>

type_synonym stk_prev = "stk_row \<times> fval"

text \<open>
  \<^verbatim>\<open>stk_data.sort_values(['Stkcd', 'Trddt'])\<close> and
  \<^verbatim>\<open>stk_data['prev_Hiprc'] = stk_data.groupby('Stkcd')['Hiprc'].shift(1)\<close>,
  on the complete rows.
\<close>

definition stk_sorted :: "stk_row list \<Rightarrow> stk_row list" where
  "stk_sorted stk = sort_values (\<lambda>t. (t_Stkcd t, Trddt t)) (dropna_stk stk)"

definition with_prev_Hiprc :: "stk_row list \<Rightarrow> stk_prev list" where
  "with_prev_Hiprc stk =
     (let rows = stk_sorted stk
      in zip rows (groupby_transform t_Stkcd Hiprc (shift 1) rows))"

text \<open>
  The row of \<^verbatim>\<open>merged\<close>: a disclosure and the trading row matched to it. The trading
  columns of a row without a match are null.
\<close>

type_synonym merged_row = "pft_row \<times> stk_prev option"

definition merged_Loprc :: "merged_row \<Rightarrow> fval" where
  "merged_Loprc r = (case snd r of None \<Rightarrow> NaN | Some (t, p) \<Rightarrow> Loprc t)"

definition merged_prev_Hiprc :: "merged_row \<Rightarrow> fval" where
  "merged_prev_Hiprc r = (case snd r of None \<Rightarrow> NaN | Some (t, p) \<Rightarrow> p)"

definition gap_merged :: "stk_row list \<Rightarrow> pft_row list \<Rightarrow> merged_row list" where
  "gap_merged stk pft =
     merge_asof_forward d_Stkcd Annodt (\<lambda>tp. t_Stkcd (fst tp)) (\<lambda>tp. Trddt (fst tp))
       (sort_values Annodt (dropna_pft pft))
       (sort_values (\<lambda>tp. Trddt (fst tp)) (with_prev_Hiprc stk))"

text \<open>The rows the mask \<^verbatim>\<open>merged['Loprc'] > merged['prev_Hiprc']\<close> keeps.\<close>

definition gap_rows :: "stk_row list \<Rightarrow> pft_row list \<Rightarrow> merged_row list" where
  "gap_rows stk pft =
     filter (\<lambda>r. fgt (merged_Loprc r) (merged_prev_Hiprc r)) (gap_merged stk pft)"

text \<open>The returned table, with its seven columns.\<close>

record gap_event =
  e_Stkcd :: string
  e_Reptyp :: string
  e_Annodt :: date
  e_Trddt :: date
  e_Loprc :: fval
  e_prev_Hiprc :: fval
  gap_pct :: fval

definition gap_pct_of :: "fval \<Rightarrow> fval \<Rightarrow> fval" where
  "gap_pct_of lo prev = fmul (fdiv (fsub lo prev) prev) (Fin 100)"

text \<open>
  The columns of a kept row. A row of \<^verbatim>\<open>merged\<close> without a match has a null
  \<^verbatim>\<open>Loprc\<close>, so the mask never keeps it: every kept row has its trading row.
\<close>

definition event_of :: "merged_row \<Rightarrow> gap_event option" where
  "event_of r =
     (case snd r of
        None \<Rightarrow> None
      | Some (t, p) \<Rightarrow>
          Some \<lparr> e_Stkcd = d_Stkcd (fst r), e_Reptyp = Reptyp (fst r),
                 e_Annodt = Annodt (fst r), e_Trddt = Trddt t, e_Loprc = Loprc t,
                 e_prev_Hiprc = p, gap_pct = gap_pct_of (Loprc t) p \<rparr>)"

definition filter_data :: "stk_row list \<Rightarrow> pft_row list \<Rightarrow> gap_event list" where
  "filter_data stk pft = List.map_filter event_of (gap_rows stk pft)"

text \<open>
  The candidates of the forward join for a disclosure: the complete trading rows of the
  same instrument dated at or after the announce date.
\<close>

definition trading_at_or_after :: "stk_row list \<Rightarrow> pft_row \<Rightarrow> stk_row \<Rightarrow> bool" where
  "trading_at_or_after stk d t =
     (t \<in> set stk \<and> stk_complete t \<and> t_Stkcd t = d_Stkcd d \<and> Annodt d \<le> Trddt t)"

text \<open>
  Sample tables: three sessions of instrument 000001 (2020-07-01 with high 10, 2020-07-02
  with low 10.5, 2020-07-03) and two disclosures, announced on 2020-07-02 and, after the
  last session, on 2020-10-31.
\<close>

definition scenario_stk :: "stk_row list" where
  "scenario_stk =
     [\<lparr> t_Stkcd = ''000001'', Trddt = 18445, Hiprc = Fin 11, Loprc = Fin (21 / 2),
         Clsprc = Fin 11, t_other = [], year = None, quarter = None \<rparr>,
      \<lparr> t_Stkcd = ''000001'', Trddt = 18444, Hiprc = Fin 10, Loprc = Fin 9,
         Clsprc = Fin 10, t_other = [], year = None, quarter = None \<rparr>,
      \<lparr> t_Stkcd = ''000001'', Trddt = 18446, Hiprc = Fin 12, Loprc = Fin 11,
         Clsprc = Fin 12, t_other = [], year = None, quarter = None \<rparr>]"

definition scenario_pft :: "pft_row list" where
  "scenario_pft =
     [\<lparr> d_Stkcd = ''000001'', Reptyp = ''2'', Accper = 18443, Annodt = 18445,
         Profita = Fin 150, d_other = [] \<rparr>,
      \<lparr> d_Stkcd = ''000001'', Reptyp = ''3'', Accper = 18535, Annodt = 18566,
         Profita = Fin 160, d_other = [] \<rparr>]"

text \<open>Sample tables with negative prices.\<close>

definition negative_stk :: "stk_row list" where
  "negative_stk =
     [\<lparr> t_Stkcd = ''000001'', Trddt = 18444, Hiprc = Fin (- 2), Loprc = Fin (- 3),
         Clsprc = Fin (- 2), t_other = [], year = None, quarter = None \<rparr>,
      \<lparr> t_Stkcd = ''000001'', Trddt = 18445, Hiprc = Fin (- 1 / 2), Loprc = Fin (- 1),
         Clsprc = Fin (- 1), t_other = [], year = None, quarter = None \<rparr>]"

definition negative_pft :: "pft_row list" where
  "negative_pft =
     [\<lparr> d_Stkcd = ''000001'', Reptyp = ''2'', Accper = 18443, Annodt = 18445,
         Profita = Fin 150, d_other = [] \<rparr>]"

section \<open>Growth Feature Builder: \<^verbatim>\<open>preprocess_financial_data\<close>\<close>

text \<open>A disclosure row with the two growth columns.\<close>

record fin_row = pft_row +
  profit_growth :: fval
  profit_growth_2y :: fval

definition with_growth :: "pft_row \<Rightarrow> fval \<times> fval \<Rightarrow> fin_row" where
  "with_growth d g =
     \<lparr> d_Stkcd = d_Stkcd d, Reptyp = Reptyp d, Accper = Accper d, Annodt = Annodt d,
       Profita = Profita d, d_other = d_other d,
       profit_growth = fst g, profit_growth_2y = snd g \<rparr>"

text \<open>
  \<^verbatim>\<open>fin_data.sort_values(['Stkcd', 'Annodt'])\<close>, then
  \<^verbatim>\<open>groupby('Stkcd')['Profita'].pct_change()\<close> and \<^verbatim>\<open>pct_change(periods=4)\<close>.
\<close>

definition preprocess_financial_data :: "bool \<Rightarrow> pft_row list \<Rightarrow> fin_row list" where
  "preprocess_financial_data pad fin_data =
     (let rows = sort_values (\<lambda>d. (d_Stkcd d, Annodt d)) fin_data;
          growth = groupby_transform d_Stkcd Profita (pct_change pad 1) rows;
          growth_2y = groupby_transform d_Stkcd Profita (pct_change pad 4) rows
      in map2 with_growth rows (zip growth growth_2y))"

section \<open>Strategy Selector: \<^verbatim>\<open>strategy_consistent_growth\<close>\<close>

text \<open>\<^verbatim>\<open>fin_data.dropna()\<close> on the table with the growth columns.\<close>

definition fin_complete :: "fin_row \<Rightarrow> bool" where
  "fin_complete f = (pft_complete f \<and> \<not> isna (profit_growth f) \<and> \<not> isna (profit_growth_2y f))"

definition dropna_fin :: "fin_row list \<Rightarrow> fin_row list" where
  "dropna_fin rows = filter fin_complete rows"

text \<open>
  A row of the joined table: the columns of the gap event, the columns of the growth record
  matched to it (\<open>None\<close>: no match, the columns are null), the columns
  \<^verbatim>\<open>growth_1q_ago\<close>, \<^verbatim>\<open>growth_2q_ago\<close>, ... in the order the loop adds them, and the columns
  \<^verbatim>\<open>buy_date\<close> and \<^verbatim>\<open>sell_date\<close> that the backtest writes into the table
  (\<open>None\<close>: the table has no such column). The column \<^verbatim>\<open>Annodt\<close> of the joined table is
  the event's.
\<close>

record sel_row =
  ev :: gap_event
  gr :: "fin_row option"
  q_ago :: "fval list"
  buy_date :: "date option"
  sell_date :: "date option"

definition joined :: "gap_event \<times> fin_row option \<Rightarrow> sel_row" where
  "joined m = \<lparr> ev = fst m, gr = snd m, q_ago = [], buy_date = None, sell_date = None \<rparr>"

definition growth_merged :: "gap_event list \<Rightarrow> fin_row list \<Rightarrow> sel_row list" where
  "growth_merged gap_events fin_data =
     map joined
       (merge_asof_backward e_Stkcd e_Annodt d_Stkcd Annodt
          (sort_values e_Annodt gap_events)
          (sort_values Annodt (dropna_fin fin_data)))"

text \<open>
  One round of the loop:
  \<^verbatim>\<open>temp = fin_data.copy(); temp['Annodt'] = temp['Annodt'] + pd.DateOffset(months=3*i)\<close>,
  reduced to the columns \<^verbatim>\<open>Stkcd\<close>, \<^verbatim>\<open>Annodt\<close>, \<^verbatim>\<open>profit_growth\<close>.
\<close>

definition temp :: "nat \<Rightarrow> fin_row list \<Rightarrow> (string \<times> date \<times> fval) list" where
  "temp i fin_data =
     map (\<lambda>f. (d_Stkcd f, add_months (3 * int i) (Annodt f), profit_growth f)) fin_data"

text \<open>
  \<^verbatim>\<open>pd.merge(merged, temp, on=['Stkcd', 'Annodt'], how='left')\<close>: every left row is kept,
  once for each right row with the same key, and once with a null in the new column when
  there is none.
\<close>

definition merge_left :: "sel_row list \<Rightarrow> (string \<times> date \<times> fval) list \<Rightarrow> sel_row list" where
  "merge_left merged tmp =
     concat (map (\<lambda>r.
        (case filter (\<lambda>t. fst t = e_Stkcd (ev r) \<and> fst (snd t) = e_Annodt (ev r)) tmp of
           [] \<Rightarrow> [r\<lparr>q_ago := q_ago r @ [NaN]\<rparr>]
         | ms \<Rightarrow> map (\<lambda>t. r\<lparr>q_ago := q_ago r @ [snd (snd t)]\<rparr>) ms)) merged)"

text \<open>\<^verbatim>\<open>for i in range(1, 9)\<close>.\<close>

definition growth_offsets :: "fin_row list \<Rightarrow> sel_row list \<Rightarrow> sel_row list" where
  "growth_offsets fin_data merged =
     fold (\<lambda>i m. merge_left m (temp i fin_data)) [1..<9] merged"

text \<open>The null-filled column \<^verbatim>\<open>profit_growth_2y\<close> of the joined table.\<close>

definition sel_profit_growth_2y :: "sel_row \<Rightarrow> fval" where
  "sel_profit_growth_2y r = (case gr r of None \<Rightarrow> NaN | Some f \<Rightarrow> profit_growth_2y f)"

text \<open>\<^verbatim>\<open>condition = (merged['profit_growth_2y'] > 50)\<close>.\<close>

definition condition :: "sel_row \<Rightarrow> bool" where
  "condition r = fgt (sel_profit_growth_2y r) (Fin 50)"

definition strategy_consistent_growth :: "gap_event list \<Rightarrow> fin_row list \<Rightarrow> sel_row list" where
  "strategy_consistent_growth gap_events fin_data =
     filter condition (growth_offsets fin_data (growth_merged gap_events fin_data))"

text \<open>
  Sample disclosures: five quarterly records of instrument 000001 with the profits
  100, 150, 0, 30, 160, and two records of instrument 000002 with the profits 0 and 5.
\<close>

definition five_quarters :: "pft_row list" where
  "five_quarters =
     [\<lparr> d_Stkcd = ''000001'', Reptyp = ''1'', Accper = 18352, Annodt = 18382, Profita = Fin 100, d_other = [] \<rparr>,
      \<lparr> d_Stkcd = ''000001'', Reptyp = ''2'', Accper = 18443, Annodt = 18474, Profita = Fin 150, d_other = [] \<rparr>,
      \<lparr> d_Stkcd = ''000002'', Reptyp = ''1'', Accper = 18352, Annodt = 18383, Profita = Fin 0, d_other = [] \<rparr>,
      \<lparr> d_Stkcd = ''000001'', Reptyp = ''3'', Accper = 18535, Annodt = 18566, Profita = Fin 0, d_other = [] \<rparr>,
      \<lparr> d_Stkcd = ''000002'', Reptyp = ''2'', Accper = 18443, Annodt = 18475, Profita = Fin 5, d_other = [] \<rparr>,
      \<lparr> d_Stkcd = ''000001'', Reptyp = ''4'', Accper = 18627, Annodt = 18656, Profita = Fin 30, d_other = [] \<rparr>,
      \<lparr> d_Stkcd = ''000001'', Reptyp = ''1'', Accper = 18717, Annodt = 18747, Profita = Fin 160, d_other = [] \<rparr>]"

text \<open>The rows of one instrument, in table order.\<close>

definition instrument_series :: "string \<Rightarrow> 'a pft_row_scheme list \<Rightarrow> 'a pft_row_scheme list" where
  "instrument_series s rows = filter (\<lambda>f. d_Stkcd f = s) rows"

text \<open>
  The claim's words: a growth record of the same instrument announced at or before the
  event's announce date.
\<close>

definition growth_record_at_or_before :: "fin_row list \<Rightarrow> gap_event \<Rightarrow> fin_row \<Rightarrow> bool" where
  "growth_record_at_or_before fin_data e f =
     (f \<in> set fin_data \<and> d_Stkcd f = e_Stkcd e \<and> Annodt f \<le> e_Annodt e)"

text \<open>
  The candidates of the backward join for an event: the right table of the join is
  \<^verbatim>\<open>fin_data.dropna()\<close>, so they are the growth records of the same instrument announced
  at or before the event's announce date that have no null cell.
\<close>

definition complete_growth_at_or_before :: "fin_row list \<Rightarrow> gap_event \<Rightarrow> fin_row \<Rightarrow> bool" where
  "complete_growth_at_or_before fin_data e f =
     (f \<in> set fin_data \<and> fin_complete f \<and> d_Stkcd f = e_Stkcd e \<and> Annodt f \<le> e_Annodt e)"

text \<open>What one offset column holds for an event: the growth of a disclosure of the same
  instrument whose announce date, moved forward by \<open>3k\<close> months, is the event's announce
  date, or a null when there is none.\<close>

definition offset_value :: "fin_row list \<Rightarrow> gap_event \<Rightarrow> nat \<Rightarrow> fval \<Rightarrow> bool" where
  "offset_value fin_data e k v =
     (let ms = filter (\<lambda>f. d_Stkcd f = e_Stkcd e \<and> add_months (3 * int k) (Annodt f) = e_Annodt e)
                 fin_data
      in if ms = [] then v = NaN else v \<in> set (map profit_growth ms))"

text \<open>Sample events and a sample growth table.\<close>

definition event_2021 :: gap_event where
  "event_2021 =
     \<lparr> e_Stkcd = ''000001'', e_Reptyp = ''1'', e_Annodt = 18747, e_Trddt = 18747,
       e_Loprc = Fin (21 / 2), e_prev_Hiprc = Fin 10, gap_pct = Fin 5 \<rparr>"

definition event_2020 :: gap_event where
  "event_2020 =
     \<lparr> e_Stkcd = ''000001'', e_Reptyp = ''2'', e_Annodt = 18474, e_Trddt = 18474,
       e_Loprc = Fin (21 / 2), e_prev_Hiprc = Fin 10, gap_pct = Fin 5 \<rparr>"

definition growth_table :: "fin_row list" where
  "growth_table =
     [\<lparr> d_Stkcd = ''000001'', Reptyp = ''3'', Accper = 18535, Annodt = 18566, Profita = Fin 0,
         d_other = [], profit_growth = Fin (- 1), profit_growth_2y = NaN \<rparr>,
      \<lparr> d_Stkcd = ''000001'', Reptyp = ''1'', Accper = 18717, Annodt = 18747, Profita = Fin 160,
         d_other = [], profit_growth = Fin (13 / 3), profit_growth_2y = Fin (3 / 5) \<rparr>,
      \<lparr> d_Stkcd = ''000001'', Reptyp = ''2'', Accper = 18808, Annodt = 18839, Profita = Fin 200,
         d_other = [], profit_growth = Fin (1 / 4), profit_growth_2y = Fin (1 / 3) \<rparr>]"

text \<open>
  A growth table whose newest record has no profit, and so null growth cells, and an
  event announced after both records.
\<close>

definition null_growth_table :: "fin_row list" where
  "null_growth_table =
     [\<lparr> d_Stkcd = ''000001'', Reptyp = ''1'', Accper = 18717, Annodt = 18747, Profita = Fin 160,
         d_other = [], profit_growth = Fin (13 / 3), profit_growth_2y = Fin (3 / 5) \<rparr>,
      \<lparr> d_Stkcd = ''000001'', Reptyp = ''2'', Accper = 18808, Annodt = 18839, Profita = NaN,
         d_other = [], profit_growth = NaN, profit_growth_2y = NaN \<rparr>]"

definition event_late :: gap_event where
  "event_late =
     \<lparr> e_Stkcd = ''000001'', e_Reptyp = ''2'', e_Annodt = 18900, e_Trddt = 18900,
       e_Loprc = Fin (21 / 2), e_prev_Hiprc = Fin 10, gap_pct = Fin 5 \<rparr>"

text \<open>The joined table of the two sample events, after the loop.\<close>

definition joined_table :: "sel_row list" where
  "joined_table = growth_offsets growth_table (growth_merged [event_2021, event_2020] growth_table)"

section \<open>Backtest Engine: \<^verbatim>\<open>backtest_strategy\<close>\<close>

text \<open>
  \<^verbatim>\<open>selected_stocks['buy_date'] = pd.to_datetime(selected_stocks['Trddt'])\<close> and
  \<^verbatim>\<open>selected_stocks['sell_date'] = selected_stocks['buy_date'] + pd.Timedelta(days=hold_period)\<close>:
  the two columns are written into the table the caller passed.
\<close>

definition assign_dates :: "int \<Rightarrow> sel_row \<Rightarrow> sel_row" where
  "assign_dates hold_period r =
     r\<lparr> buy_date := Some (e_Trddt (ev r)),
        sell_date := Some (add_days hold_period (e_Trddt (ev r))) \<rparr>"

text \<open>A row of that table together with the values of its two date columns, as join keys.\<close>

record position =
  pos_row :: sel_row
  pos_buy_date :: date
  pos_sell_date :: date

definition open_position :: "int \<Rightarrow> sel_row \<Rightarrow> position" where
  "open_position hold_period r =
     \<lparr> pos_row = assign_dates hold_period r,
       pos_buy_date = e_Trddt (ev r),
       pos_sell_date = add_days hold_period (e_Trddt (ev r)) \<rparr>"

definition pos_Stkcd :: "position \<Rightarrow> string" where
  "pos_Stkcd p = e_Stkcd (ev (pos_row p))"

text \<open>
  The first join (\<open>backward\<close>, on \<^verbatim>\<open>buy_date\<close>) and the second (\<open>forward\<close>, on
  \<^verbatim>\<open>sell_date\<close>), each against the price table sorted by date. A row carries the price row
  matched for the buy side and the one matched for the sell side.
\<close>

type_synonym bought = "position \<times> stk_row option"

type_synonym held = "bought \<times> stk_row option"

definition merge_buy :: "int \<Rightarrow> sel_row list \<Rightarrow> stk_row list \<Rightarrow> bought list" where
  "merge_buy hold_period selected_stocks price_data =
     merge_asof_backward pos_Stkcd pos_buy_date t_Stkcd Trddt
       (sort_values pos_buy_date (map (open_position hold_period) selected_stocks))
       (sort_values Trddt price_data)"

definition merge_sell :: "int \<Rightarrow> sel_row list \<Rightarrow> stk_row list \<Rightarrow> held list" where
  "merge_sell hold_period selected_stocks price_data =
     merge_asof_forward (\<lambda>b. pos_Stkcd (fst b)) (\<lambda>b. pos_sell_date (fst b)) t_Stkcd Trddt
       (sort_values (\<lambda>b. pos_sell_date (fst b)) (merge_buy hold_period selected_stocks price_data))
       (sort_values Trddt price_data)"

definition held_buy_date :: "held \<Rightarrow> date" where
  "held_buy_date h = pos_buy_date (fst (fst h))"

definition buy_price :: "held \<Rightarrow> fval" where
  "buy_price h = (case snd (fst h) of None \<Rightarrow> NaN | Some t \<Rightarrow> Clsprc t)"

definition sell_price :: "held \<Rightarrow> fval" where
  "sell_price h = (case snd h of None \<Rightarrow> NaN | Some t \<Rightarrow> Clsprc t)"

text \<open>\<^verbatim>\<open>selected_stocks['return'] = selected_stocks['sell_price'] / selected_stocks['buy_price'] - 1\<close>.\<close>

definition position_return :: "held \<Rightarrow> fval" where
  "position_return h = fsub (fdiv (sell_price h) (buy_price h)) (Fin 1)"

text \<open>
  \<^verbatim>\<open>mean()\<close> of one group: the nulls are skipped; a group with no value that is not null
  has a null mean.
\<close>

definition mean_skipna :: "fval list \<Rightarrow> fval" where
  "mean_skipna vs =
     (let xs = filter (\<lambda>v. \<not> isna v) vs
      in if xs = [] then NaN else fdiv (foldl fadd (Fin 0) xs) (Fin (real (length xs))))"

text \<open>
  \<^verbatim>\<open>groupby(key)[col].mean().reset_index()\<close>: one row per distinct key, keys ascending.
\<close>

definition groupby_mean :: "('r \<Rightarrow> date) \<Rightarrow> ('r \<Rightarrow> fval) \<Rightarrow> 'r list \<Rightarrow> (date \<times> fval) list" where
  "groupby_mean key col rows =
     map (\<lambda>k. (k, mean_skipna (map col (filter (\<lambda>r. key r = k) rows))))
       (sort (remdups (map key rows)))"

text \<open>
  \<^verbatim>\<open>cumprod()\<close>: a null entry gives a null and is left out of the running product.
\<close>

fun cumprod_from :: "fval \<Rightarrow> fval list \<Rightarrow> fval list" where
  "cumprod_from acc [] = []"
| "cumprod_from acc (x # xs) =
     (if isna x then NaN # cumprod_from acc xs
      else fmul acc x # cumprod_from (fmul acc x) xs)"

definition cumprod :: "fval list \<Rightarrow> fval list" where
  "cumprod xs = cumprod_from (Fin 1) xs"

text \<open>\<^verbatim>\<open>(1 + col).cumprod() - 1\<close>.\<close>

definition compound :: "fval list \<Rightarrow> fval list" where
  "compound rs = map (\<lambda>c. fsub c (Fin 1)) (cumprod (map (\<lambda>r. fadd (Fin 1) r) rs))"

text \<open>
  The returned table. The three benchmark columns (\<^verbatim>\<open>date\<close>, \<^verbatim>\<open>benchmark_return\<close>,
  \<^verbatim>\<open>benchmark_cum\<close>) are \<open>None\<close> when there are no such columns, or no benchmark row for
  the buy date.
\<close>

record portfolio_row =
  pr_buy_date :: date
  pr_return :: fval
  cum_return :: fval
  pr_benchmark :: "(date \<times> fval \<times> fval) option"

definition portfolio_return :: "int \<Rightarrow> sel_row list \<Rightarrow> stk_row list \<Rightarrow> portfolio_row list" where
  "portfolio_return hold_period selected_stocks price_data =
     (let means = groupby_mean held_buy_date position_return
                    (merge_sell hold_period selected_stocks price_data)
      in map2 (\<lambda>m c. \<lparr> pr_buy_date = fst m, pr_return = snd m, cum_return = c,
                         pr_benchmark = None \<rparr>)
           means (compound (map snd means)))"

text \<open>A row of the benchmark table: its date and the close column named by \<^verbatim>\<open>index_name\<close>.\<close>

record bench_row =
  b_date :: date
  b_close :: fval

text \<open>\<^verbatim>\<open>np.log\<close>.\<close>

fun flog :: "fval \<Rightarrow> fval" where
  "flog (Fin a) = (if 0 < a then Fin (ln a) else if a = 0 then NInf else NaN)"
| "flog PInf = PInf"
| "flog NInf = NaN"
| "flog NaN = NaN"

definition fillna :: "fval \<Rightarrow> fval list \<Rightarrow> fval list" where
  "fillna v xs = map (\<lambda>x. if isna x then v else x) xs"

text \<open>
  The benchmark branch up to the table with the columns \<^verbatim>\<open>date\<close>,
  \<^verbatim>\<open>benchmark_return\<close>, \<^verbatim>\<open>benchmark_cum\<close>: backward join of the buy dates against the
  sorted benchmark (no \<open>by\<close> key), forward fill of the close, log return against the row
  before, first return 0, compounding.
\<close>

definition benchmark_table :: "date list \<Rightarrow> bench_row list \<Rightarrow> (date \<times> fval \<times> fval) list" where
  "benchmark_table dates benchmark =
     (let joined = merge_asof_backward (\<lambda>d. ()) (\<lambda>d. d) (\<lambda>b. ()) b_date dates
                     (sort_values b_date benchmark);
          close = ffill (map (\<lambda>j. case snd j of None \<Rightarrow> NaN | Some b \<Rightarrow> b_close b) joined);
          benchmark_return = fillna (Fin 0) (map2 (\<lambda>c p. flog (fdiv c p)) close (shift 1 close));
          benchmark_cum = compound benchmark_return
      in zip (map fst joined) (zip benchmark_return benchmark_cum))"

text \<open>
  \<^verbatim>\<open>pd.merge(portfolio_return, benchmark[[...]], left_on='buy_date', right_on='date', how='left')\<close>.
\<close>

definition merge_benchmark ::
  "portfolio_row list \<Rightarrow> (date \<times> fval \<times> fval) list \<Rightarrow> portfolio_row list" where
  "merge_benchmark portfolio bench =
     concat (map (\<lambda>p.
        (case filter (\<lambda>b. fst b = pr_buy_date p) bench of
           [] \<Rightarrow> [p\<lparr>pr_benchmark := None\<rparr>]
         | ms \<Rightarrow> map (\<lambda>b. p\<lparr>pr_benchmark := Some b\<rparr>) ms)) portfolio)"

definition backtest_strategy ::
  "sel_row list \<Rightarrow> stk_row list \<Rightarrow> int \<Rightarrow> bench_row list option \<Rightarrow> portfolio_row list" where
  "backtest_strategy selected_stocks price_data hold_period benchmark =
     (let portfolio = portfolio_return hold_period selected_stocks price_data
      in case benchmark of
           None \<Rightarrow> portfolio
         | Some bm \<Rightarrow> merge_benchmark portfolio (benchmark_table (map pr_buy_date portfolio) bm))"

text \<open>Sample tables for the backtest.\<close>

definition selected_at :: "string \<Rightarrow> date \<Rightarrow> sel_row" where
  "selected_at s d =
     joined (\<lparr> e_Stkcd = s, e_Reptyp = ''1'', e_Annodt = d, e_Trddt = d,
               e_Loprc = Fin (21 / 2), e_prev_Hiprc = Fin 10, gap_pct = Fin 5 \<rparr>, None)"

definition price_at :: "string \<Rightarrow> date \<Rightarrow> real \<Rightarrow> stk_row" where
  "price_at s d c =
     \<lparr> t_Stkcd = s, Trddt = d, Hiprc = Fin c, Loprc = Fin c, Clsprc = Fin c, t_other = [],
       year = None, quarter = None \<rparr>"

definition three_selected :: "sel_row list" where
  "three_selected =
     [selected_at ''000002'' 18455, selected_at ''000001'' 18445, selected_at ''000003'' 18465]"

definition three_prices :: "stk_row list" where
  "three_prices =
     [price_at ''000001'' 18445 10, price_at ''000001'' 18536 11,
      price_at ''000002'' 18455 20, price_at ''000002'' 18545 19,
      price_at ''000003'' 18465 10, price_at ''000003'' 18557 12]"

definition recent_selected :: "sel_row list" where
  "recent_selected = [selected_at ''000001'' 18445, selected_at ''000002'' 18400]"

definition recent_prices :: "stk_row list" where
  "recent_prices =
     [price_at ''000001'' 18445 10, price_at ''000001'' 18536 11, price_at ''000002'' 18400 20]"

text \<open>
  The claim's words for the cumulative return at the \<open>k\<close>-th buy date: the product of
  \<open>1 + portfolio_return\<close> over the first \<open>k\<close> buy dates, minus 1.
\<close>

definition compounded_first :: "nat \<Rightarrow> fval list \<Rightarrow> fval" where
  "compounded_first k rs = fsub (foldl fmul (Fin 1) (map (\<lambda>r. fadd (Fin 1) r) (take k rs))) (Fin 1)"

text \<open>
  Equality within a tolerance, for the sample values of the claims: two finite values that
  differ by at most \<open>eps\<close>, or the same special value on both sides.
\<close>

definition within_tolerance :: "real \<Rightarrow> fval \<Rightarrow> fval \<Rightarrow> bool" where
  "within_tolerance eps a b =
     (case (a, b) of
        (Fin x, Fin y) \<Rightarrow> \<bar>x - y\<bar> \<le> eps
      | (PInf, PInf) \<Rightarrow> True
      | (NInf, NInf) \<Rightarrow> True
      | (NaN, NaN) \<Rightarrow> True
      | _ \<Rightarrow> False)"

section \<open>The stages as operations on a store of tables\<close>

text \<open>
  A table is an object: the caller and the function it is passed to hold the same object,
  and a column assignment \<^verbatim>\<open>df[col] = values\<close> changes it for both. The store is the list of
  the tables that exist, a table's address is its position. \<^verbatim>\<open>copy\<close>, \<^verbatim>\<open>concat\<close>,
  \<^verbatim>\<open>dropna\<close>, \<^verbatim>\<open>sort_values\<close>, \<^verbatim>\<open>merge\<close>, \<^verbatim>\<open>merge_asof\<close> and a mask make a new table; a
  column assignment on a table that the function made itself is folded into the making of
  that table, one on a table the function was handed is an update in place. A result is
  \<open>None\<close> when the function raises (a key that is missing from a dict, a column that the
  table at an address does not have).
\<close>

datatype frame =
    Trading "stk_row list"
  | Disclosures "pft_row list"
  | Events "gap_event list"
  | Growth "fin_row list"
  | Selected "sel_row list"
  | Portfolio "portfolio_row list"
  | Benchmark "bench_row list"

type_synonym store = "frame list"

definition alloc :: "store \<Rightarrow> frame \<Rightarrow> store \<times> nat" where
  "alloc h f = (h @ [f], length h)"

definition deref :: "store \<Rightarrow> nat \<Rightarrow> frame option" where
  "deref h a = (if a < length h then Some (h ! a) else None)"

definition setitem :: "store \<Rightarrow> nat \<Rightarrow> frame \<Rightarrow> store" where
  "setitem h a f = h[a := f]"

fun trading_of :: "frame \<Rightarrow> stk_row list option" where
  "trading_of (Trading rows) = Some rows"
| "trading_of _ = None"

fun disclosures_of :: "frame \<Rightarrow> pft_row list option" where
  "disclosures_of (Disclosures rows) = Some rows"
| "disclosures_of _ = None"

fun events_of :: "frame \<Rightarrow> gap_event list option" where
  "events_of (Events rows) = Some rows"
| "events_of _ = None"

fun growth_of :: "frame \<Rightarrow> fin_row list option" where
  "growth_of (Growth rows) = Some rows"
| "growth_of _ = None"

fun selected_of :: "frame \<Rightarrow> sel_row list option" where
  "selected_of (Selected rows) = Some rows"
| "selected_of _ = None"

fun benchmark_of :: "frame \<Rightarrow> bench_row list option" where
  "benchmark_of (Benchmark rows) = Some rows"
| "benchmark_of _ = None"

text \<open>
  The two dicts of \<^verbatim>\<open>BenchmarkDataConstructor\<close>, from a name to the address of a table.
\<close>

record constructor =
  raw_data :: "string \<rightharpoonup> nat"
  processed_data :: "string \<rightharpoonup> nat"

definition raw_trading :: "store \<Rightarrow> constructor \<Rightarrow> string \<Rightarrow> stk_row list option" where
  "raw_trading h c name = do { a \<leftarrow> raw_data c name; f \<leftarrow> deref h a; trading_of f }"

text \<open>
  Merger, \<^verbatim>\<open>merge_all_data\<close>: \<^verbatim>\<open>pd.concat\<close> of the six shards, a copy of it under
  \<^verbatim>\<open>"stk_data"\<close> and a copy of \<^verbatim>\<open>raw_data["IAR_Rept"]\<close> under \<^verbatim>\<open>"pft_data"\<close>.
\<close>

definition merge_all_data :: "store \<Rightarrow> constructor \<Rightarrow> (store \<times> constructor) option" where
  "merge_all_data h c = do {
     s0 \<leftarrow> raw_trading h c ''TRD_Dalyr0'';
     s1 \<leftarrow> raw_trading h c ''TRD_Dalyr1'';
     s2 \<leftarrow> raw_trading h c ''TRD_Dalyr2'';
     s3 \<leftarrow> raw_trading h c ''TRD_Dalyr3'';
     s4 \<leftarrow> raw_trading h c ''TRD_Dalyr4'';
     s5 \<leftarrow> raw_trading h c ''TRD_Dalyr5'';
     let (h1, merged_df) = alloc h (Trading (concat [s0, s1, s2, s3, s4, s5]));
     let (h2, stk) = alloc h1 (Trading (concat [s0, s1, s2, s3, s4, s5]));
     a \<leftarrow> raw_data c ''IAR_Rept'';
     f \<leftarrow> deref h2 a;
     pft_rows \<leftarrow> disclosures_of f;
     let (h3, pft) = alloc h2 (Disclosures pft_rows);
     Some (h3, c\<lparr>processed_data := (processed_data c)(''stk_data'' \<mapsto> stk, ''pft_data'' \<mapsto> pft)\<rparr>)
   }"

text \<open>
  \<^verbatim>\<open>count_num\<close>: \<^verbatim>\<open>df = self.processed_data["stk_data"]\<close> is the table itself, not a copy, so
  \<^verbatim>\<open>df['year'] = ...\<close> and \<^verbatim>\<open>df['quarter'] = ...\<close> write into it. (The counts go to a file.)
\<close>

definition count_num :: "store \<Rightarrow> constructor \<Rightarrow> store option" where
  "count_num h c = do {
     df \<leftarrow> processed_data c ''stk_data'';
     f \<leftarrow> deref h df;
     rows \<leftarrow> trading_of f;
     let h1 = setitem h df (Trading (map (\<lambda>t. t\<lparr>year := Some (year_of (Trddt t))\<rparr>) rows));
     f1 \<leftarrow> deref h1 df;
     rows1 \<leftarrow> trading_of f1;
     let h2 = setitem h1 df (Trading (map (\<lambda>t. t\<lparr>quarter := Some (quarter_of (Trddt t))\<rparr>) rows1));
     Some h2
   }"

text \<open>
  Gap Event Detector on the store: both inputs are read through \<^verbatim>\<open>dropna()\<close>, which makes
  new tables; the result is a new table.
\<close>

definition filter_data_store :: "store \<Rightarrow> constructor \<Rightarrow> (store \<times> nat) option" where
  "filter_data_store h c = do {
     a \<leftarrow> processed_data c ''stk_data'';
     f \<leftarrow> deref h a;
     stk \<leftarrow> trading_of f;
     b \<leftarrow> processed_data c ''pft_data'';
     g \<leftarrow> deref h b;
     pft \<leftarrow> disclosures_of g;
     Some (alloc h (Events (filter_data stk pft)))
   }"

text \<open>
  Strategy Selector on the store: \<^verbatim>\<open>gap_events.sort_values\<close>, \<^verbatim>\<open>fin_data.dropna()\<close> and
  \<^verbatim>\<open>fin_data.copy()\<close> make new tables, and the date shift is written into the copy.
\<close>

definition strategy_store :: "store \<Rightarrow> nat \<Rightarrow> nat \<Rightarrow> (store \<times> nat) option" where
  "strategy_store h gap_events fin_data = do {
     f \<leftarrow> deref h gap_events;
     events \<leftarrow> events_of f;
     g \<leftarrow> deref h fin_data;
     fin \<leftarrow> growth_of g;
     Some (alloc h (Selected (strategy_consistent_growth events fin)))
   }"

text \<open>\<^verbatim>\<open>pd.to_datetime\<close> on a column that holds dates already.\<close>

definition to_datetime :: "date \<Rightarrow> date" where
  "to_datetime d = d"

text \<open>
  Backtest Engine on the store. The first three statements assign columns of the tables
  the function was handed: \<^verbatim>\<open>price_data['Trddt']\<close>, \<^verbatim>\<open>selected_stocks['buy_date']\<close>,
  \<^verbatim>\<open>selected_stocks['sell_date']\<close>; with a benchmark, \<^verbatim>\<open>benchmark['date']\<close> as well. Only
  then is the name \<^verbatim>\<open>selected_stocks\<close> bound to the new table of the first join.
\<close>

definition set_buy_date :: "sel_row \<Rightarrow> sel_row" where
  "set_buy_date r = r\<lparr>buy_date := Some (to_datetime (e_Trddt (ev r)))\<rparr>"

definition set_sell_date :: "int \<Rightarrow> sel_row \<Rightarrow> sel_row" where
  "set_sell_date hold_period r =
     r\<lparr>sell_date := map_option (add_days hold_period) (buy_date r)\<rparr>"

definition backtest_store ::
  "store \<Rightarrow> nat \<Rightarrow> nat \<Rightarrow> int \<Rightarrow> nat option \<Rightarrow> (store \<times> nat) option" where
  "backtest_store h selected_stocks price_data hold_period benchmark = do {
     f \<leftarrow> deref h price_data;
     price \<leftarrow> trading_of f;
     let h1 = setitem h price_data (Trading (map (\<lambda>t. t\<lparr>Trddt := to_datetime (Trddt t)\<rparr>) price));
     g \<leftarrow> deref h1 selected_stocks;
     selected \<leftarrow> selected_of g;
     let h2 = setitem h1 selected_stocks (Selected (map set_buy_date selected));
     g2 \<leftarrow> deref h2 selected_stocks;
     selected2 \<leftarrow> selected_of g2;
     let h3 = setitem h2 selected_stocks (Selected (map (set_sell_date hold_period) selected2));
     f3 \<leftarrow> deref h3 price_data;
     price3 \<leftarrow> trading_of f3;
     case benchmark of
       None \<Rightarrow> Some (alloc h3 (Portfolio (backtest_strategy selected price3 hold_period None)))
     | Some b \<Rightarrow> do {
         k \<leftarrow> deref h3 b;
         bm \<leftarrow> benchmark_of k;
         let h4 = setitem h3 b (Benchmark (map (\<lambda>x. x\<lparr>b_date := to_datetime (b_date x)\<rparr>) bm));
         Some (alloc h4 (Portfolio (backtest_strategy selected price3 hold_period (Some bm))))
       }
   }"

text \<open>Sample stores.\<close>

definition sample_store :: store where
  "sample_store = [Selected recent_selected, Trading recent_prices]"

definition raw_store :: store where
  "raw_store =
     [Trading scenario_stk, Trading [], Trading [], Trading [], Trading [], Trading [],
      Disclosures scenario_pft]"

definition raw_constructor :: constructor where
  "raw_constructor =
     \<lparr> raw_data = [''TRD_Dalyr0'' \<mapsto> 0, ''TRD_Dalyr1'' \<mapsto> 1, ''TRD_Dalyr2'' \<mapsto> 2,
                    ''TRD_Dalyr3'' \<mapsto> 3, ''TRD_Dalyr4'' \<mapsto> 4, ''TRD_Dalyr5'' \<mapsto> 5,
                    ''IAR_Rept'' \<mapsto> 6],
       processed_data = Map.empty \<rparr>"

definition merged_store :: store where
  "merged_store = raw_store @ [Trading scenario_stk, Trading scenario_stk, Disclosures scenario_pft]"

definition merged_constructor :: constructor where
  "merged_constructor =
     raw_constructor\<lparr>processed_data := [''stk_data'' \<mapsto> 8, ''pft_data'' \<mapsto> 9]\<rparr>"

definition growth_store :: store where
  "growth_store = [Events [event_2021, event_2020], Growth growth_table]"

section \<open>Properties of the table operations\<close>

lemma find_sorted_least:
  "sorted (map key xs) \<Longrightarrow> find P xs = Some x \<Longrightarrow> y \<in> set xs \<Longrightarrow> P y \<Longrightarrow> key x \<le> key y"
  by (induction xs) (auto split: if_splits)

lemma find_rev_sorted_greatest:
  "sorted (map key xs) \<Longrightarrow> find P (rev xs) = Some x \<Longrightarrow> y \<in> set xs \<Longrightarrow> P y \<Longrightarrow> key y \<le> key x"
proof (induction xs rule: rev_induct)
  case Nil
  then show ?case by simp
next
  case (snoc a xs)
  then show ?case by (auto simp: sorted_append split: if_splits)
qed

lemma find_SomeD: "find P xs = Some x \<Longrightarrow> x \<in> set xs \<and> P x"
  by (induction xs) (auto split: if_splits)

lemma find_NoneD: "find P xs = None \<Longrightarrow> y \<in> set xs \<Longrightarrow> \<not> P y"
  by (induction xs) (auto split: if_splits)

lemma length_assign_groups [simp]: "length (assign_groups key F cnt rs) = length rs"
  by (induction rs arbitrary: cnt) auto

lemma length_groupby_transform [simp]: "length (groupby_transform key col f rs) = length rs"
  by (simp add: groupby_transform_def)

lemma assign_groups_group:
  "length (F s) = cnt s + length (filter (\<lambda>r. key r = s) rs) \<Longrightarrow>
   map snd (filter (\<lambda>p. key (fst p) = s) (zip rs (assign_groups key F cnt rs))) = drop (cnt s) (F s)"
proof (induction rs arbitrary: cnt)
  case Nil
  then show ?case by simp
next
  case (Cons r rs)
  show ?case
  proof (cases "key r = s")
    case True
    with Cons.prems have len: "length (F s) = (cnt(s := Suc (cnt s))) s + length (filter (\<lambda>r. key r = s) rs)"
      by simp
    have "map snd (filter (\<lambda>p. key (fst p) = s)
            (zip rs (assign_groups key F (cnt(s := Suc (cnt s))) rs)))
          = drop ((cnt(s := Suc (cnt s))) s) (F s)"
      by (rule Cons.IH [of "cnt(s := Suc (cnt s))"]) (rule len)
    then have tl: "map snd (filter (\<lambda>p. key (fst p) = s)
            (zip rs (assign_groups key F (cnt(s := Suc (cnt s))) rs))) = drop (Suc (cnt s)) (F s)"
      by simp
    have "cnt s < length (F s)" using len by simp
    then have "F s ! cnt s # drop (Suc (cnt s)) (F s) = drop (cnt s) (F s)"
      by (rule Cons_nth_drop_Suc)
    with tl True show ?thesis by simp
  next
    case False
    with Cons.prems have len: "length (F s) = (cnt(key r := Suc (cnt (key r)))) s + length (filter (\<lambda>r. key r = s) rs)"
      by simp
    have "map snd (filter (\<lambda>p. key (fst p) = s)
            (zip rs (assign_groups key F (cnt(key r := Suc (cnt (key r)))) rs)))
          = drop ((cnt(key r := Suc (cnt (key r)))) s) (F s)"
      by (rule Cons.IH [of "cnt(key r := Suc (cnt (key r)))"]) (rule len)
    with False show ?thesis by simp
  qed
qed

lemma filter_zip_fst:
  "length ys = length xs \<Longrightarrow> map fst (filter (\<lambda>p. P (fst p)) (zip xs ys)) = filter P xs"
  by (induction xs ys rule: list_induct2') auto

lemma groupby_transform_group:
  assumes "\<And>xs. length (f xs) = length xs"
  shows "map snd (filter (\<lambda>p. key (fst p) = s) (zip rs (groupby_transform key col f rs)))
           = f (map col (filter (\<lambda>r. key r = s) rs))"
  using assign_groups_group [of "\<lambda>k. f (map col (filter (\<lambda>r. key r = k) rs))" s "\<lambda>k. 0" key rs] assms
  by (simp add: groupby_transform_def)

lemma length_shift [simp]: "length (shift n xs) = length xs"
  by (simp add: shift_def)

lemma shift_nth: "i < length xs \<Longrightarrow> shift n xs ! i = (if i < n then NaN else xs ! (i - n))"
  by (auto simp: shift_def nth_append)

section \<open>Properties of the Gap Event Detector\<close>

lemma fgt_NaN [simp]: "\<not> fgt NaN v" "\<not> fgt v NaN"
  by (cases v; simp)+

lemma set_stk_sorted: "set (stk_sorted stk) = {t \<in> set stk. stk_complete t}"
  by (auto simp: stk_sorted_def sort_values_def dropna_stk_def)

lemma fst_with_prev_Hiprc: "map fst (with_prev_Hiprc stk) = stk_sorted stk"
  by (simp add: with_prev_Hiprc_def Let_def)

lemma fst_set_with_prev_Hiprc:
  "fst ` set (with_prev_Hiprc stk) = {t \<in> set stk. stk_complete t}"
  using fst_with_prev_Hiprc [of stk] set_stk_sorted [of stk] by (metis set_map)

lemma gap_merged_fst: "map fst (gap_merged stk pft) = sort_values Annodt (dropna_pft pft)"
  by (simp add: gap_merged_def merge_asof_forward_def comp_def)

lemma gap_merged_match:
  assumes "(d, m) \<in> set (gap_merged stk pft)"
  shows "case m of
           None \<Rightarrow> (\<forall>t. \<not> trading_at_or_after stk d t)
         | Some tp \<Rightarrow> trading_at_or_after stk d (fst tp) \<and>
                     (\<forall>t'. trading_at_or_after stk d t' \<longrightarrow> Trddt (fst tp) \<le> Trddt t')"
proof -
  let ?right = "sort_values (\<lambda>tp. Trddt (fst tp)) (with_prev_Hiprc stk)"
  let ?P = "\<lambda>tp. t_Stkcd (fst tp) = d_Stkcd d \<and> Annodt d \<le> Trddt (fst tp)"
  have m: "m = find ?P ?right"
    using assms by (auto simp: gap_merged_def merge_asof_forward_def)
  have srt: "sorted (map (\<lambda>tp. Trddt (fst tp)) ?right)"
    by (simp add: sort_values_def)
  have st: "set ?right = set (with_prev_Hiprc stk)"
    by (simp add: sort_values_def)
  have cand: "trading_at_or_after stk d t \<longleftrightarrow> (\<exists>p. (t, p) \<in> set ?right \<and> ?P (t, p))" for t
  proof -
    have "t \<in> set stk \<and> stk_complete t \<longleftrightarrow> t \<in> fst ` set ?right"
      using fst_set_with_prev_Hiprc [of stk] st by simp
    then show ?thesis by (force simp: trading_at_or_after_def)
  qed
  show ?thesis
  proof (cases m)
    case None
    then have "\<not> ?P tp" if "tp \<in> set ?right" for tp
      using m that find_NoneD [of ?P ?right tp] by simp
    then show ?thesis using None cand by auto
  next
    case (Some tp)
    then have f: "find ?P ?right = Some tp" using m by simp
    from find_SomeD [OF f] have "(fst tp, snd tp) \<in> set ?right" "?P (fst tp, snd tp)"
      by simp_all
    then have a: "trading_at_or_after stk d (fst tp)"
      unfolding cand [of "fst tp"] by blast
    have "Trddt (fst tp) \<le> Trddt t'" if "trading_at_or_after stk d t'" for t'
    proof -
      from that cand [of t'] obtain p where "(t', p) \<in> set ?right" "?P (t', p)" by blast
      from find_sorted_least [OF srt f this] show ?thesis by simp
    qed
    with a Some show ?thesis by simp
  qed
qed

lemma gap_rows_matched: "r \<in> set (gap_rows stk pft) \<Longrightarrow> r \<in> set (gap_merged stk pft) \<and> snd r \<noteq> None"
  by (cases "snd r") (auto simp: gap_rows_def merged_Loprc_def)

lemma map_filter_event_of:
  "\<forall>r\<in>set rs. snd r \<noteq> None \<Longrightarrow> List.map_filter event_of rs = map (\<lambda>r. the (event_of r)) rs"
  by (induction rs) (auto simp: List.map_filter_simps event_of_def split: option.splits)

lemma filter_data_eq: "filter_data stk pft = map (\<lambda>r. the (event_of r)) (gap_rows stk pft)"
  unfolding filter_data_def
  by (rule map_filter_event_of) (simp add: gap_rows_matched)

lemma gap_merged_event:
  assumes "e \<in> set (filter_data stk pft)"
  obtains d t p where "(d, Some (t, p)) \<in> set (gap_merged stk pft)"
    and "fgt (Loprc t) p"
    and "e = \<lparr> e_Stkcd = d_Stkcd d, e_Reptyp = Reptyp d, e_Annodt = Annodt d,
                  e_Trddt = Trddt t, e_Loprc = Loprc t, e_prev_Hiprc = p,
                  gap_pct = gap_pct_of (Loprc t) p \<rparr>"
proof -
  from assms obtain r where r: "r \<in> set (gap_rows stk pft)" and e: "e = the (event_of r)"
    by (auto simp: filter_data_eq)
  from gap_rows_matched [OF r] obtain d t p where rr: "r = (d, Some (t, p))"
    by (cases r) auto
  have "fgt (Loprc t) p"
    using r by (simp add: rr gap_rows_def merged_Loprc_def merged_prev_Hiprc_def)
  moreover have "(d, Some (t, p)) \<in> set (gap_merged stk pft)"
    using gap_rows_matched [OF r] rr by simp
  moreover have "e = \<lparr> e_Stkcd = d_Stkcd d, e_Reptyp = Reptyp d, e_Annodt = Annodt d,
                  e_Trddt = Trddt t, e_Loprc = Loprc t, e_prev_Hiprc = p,
                  gap_pct = gap_pct_of (Loprc t) p \<rparr>"
    by (simp add: e rr event_of_def)
  ultimately show ?thesis using that by blast
qed

lemma gap_merged_disclosure:
  "(d, m) \<in> set (gap_merged stk pft) \<Longrightarrow> d \<in> set pft \<and> pft_complete d"
proof -
  assume "(d, m) \<in> set (gap_merged stk pft)"
  then have "d \<in> set (map fst (gap_merged stk pft))" by force
  then show ?thesis
    by (simp add: gap_merged_fst sort_values_def dropna_pft_def)
qed

text \<open>
  Claim C1. Every complete disclosure gives one row of \<^verbatim>\<open>merged\<close>. Its match is a complete
  trading row of the same instrument dated at or after the announce date, and no such row
  has an earlier trade date (forward as-of match); when no such row exists the match is
  null. The mask keeps matched rows only, so every returned event carries the first trade
  date at or after its announce date, and a disclosure that has no trading row at or after
  its announce date gives no event.
\<close>

theorem gap_detector_forward_match:
  "map fst (gap_merged stk pft) = sort_values Annodt (dropna_pft pft) \<and>
   (\<forall>r\<in>set (gap_merged stk pft).
      case snd r of
        None \<Rightarrow> (\<forall>t. \<not> trading_at_or_after stk (fst r) t)
      | Some tp \<Rightarrow> trading_at_or_after stk (fst r) (fst tp) \<and>
                  (\<forall>t'. trading_at_or_after stk (fst r) t' \<longrightarrow> Trddt (fst tp) \<le> Trddt t')) \<and>
   (\<forall>r\<in>set (gap_rows stk pft). r \<in> set (gap_merged stk pft) \<and> snd r \<noteq> None) \<and>
   (\<forall>e\<in>set (filter_data stk pft).
      \<exists>d t. d \<in> set pft \<and> pft_complete d \<and> e_Stkcd e = d_Stkcd d \<and> e_Annodt e = Annodt d \<and>
            trading_at_or_after stk d t \<and> e_Trddt e = Trddt t \<and> e_Loprc e = Loprc t \<and>
            (\<forall>t'. trading_at_or_after stk d t' \<longrightarrow> e_Trddt e \<le> Trddt t')) \<and>
   (\<forall>d. (\<forall>t. \<not> trading_at_or_after stk d t) \<longrightarrow>
        (\<forall>e\<in>set (filter_data stk pft). \<not> (e_Stkcd e = d_Stkcd d \<and> e_Annodt e = Annodt d)))"
proof (intro conjI ballI allI impI)
  show "map fst (gap_merged stk pft) = sort_values Annodt (dropna_pft pft)"
    by (rule gap_merged_fst)
next
  fix r assume "r \<in> set (gap_merged stk pft)"
  then have "(fst r, snd r) \<in> set (gap_merged stk pft)" by simp
  from gap_merged_match [OF this]
  show "case snd r of
        None \<Rightarrow> (\<forall>t. \<not> trading_at_or_after stk (fst r) t)
      | Some tp \<Rightarrow> trading_at_or_after stk (fst r) (fst tp) \<and>
                  (\<forall>t'. trading_at_or_after stk (fst r) t' \<longrightarrow> Trddt (fst tp) \<le> Trddt t')" .
next
  fix r assume "r \<in> set (gap_rows stk pft)"
  then show "r \<in> set (gap_merged stk pft)" "snd r \<noteq> None"
    using gap_rows_matched by blast+
next
  fix e assume "e \<in> set (filter_data stk pft)"
  then obtain d t p where m: "(d, Some (t, p)) \<in> set (gap_merged stk pft)"
    and e: "e = \<lparr> e_Stkcd = d_Stkcd d, e_Reptyp = Reptyp d, e_Annodt = Annodt d,
                  e_Trddt = Trddt t, e_Loprc = Loprc t, e_prev_Hiprc = p,
                  gap_pct = gap_pct_of (Loprc t) p \<rparr>"
    by (rule gap_merged_event)
  from gap_merged_match [OF m]
  have "trading_at_or_after stk d t"
    "\<forall>t'. trading_at_or_after stk d t' \<longrightarrow> Trddt t \<le> Trddt t'" by simp_all
  with gap_merged_disclosure [OF m] e
  show "\<exists>d t. d \<in> set pft \<and> pft_complete d \<and> e_Stkcd e = d_Stkcd d \<and> e_Annodt e = Annodt d \<and>
            trading_at_or_after stk d t \<and> e_Trddt e = Trddt t \<and> e_Loprc e = Loprc t \<and>
            (\<forall>t'. trading_at_or_after stk d t' \<longrightarrow> e_Trddt e \<le> Trddt t')"
    by (intro exI [of _ d] exI [of _ t]) simp
next
  fix d e
  assume none: "\<forall>t. \<not> trading_at_or_after stk d t" and "e \<in> set (filter_data stk pft)"
  then obtain d' t p where m: "(d', Some (t, p)) \<in> set (gap_merged stk pft)"
    and e: "e = \<lparr> e_Stkcd = d_Stkcd d', e_Reptyp = Reptyp d', e_Annodt = Annodt d',
                  e_Trddt = Trddt t, e_Loprc = Loprc t, e_prev_Hiprc = p,
                  gap_pct = gap_pct_of (Loprc t) p \<rparr>"
    by (blast elim: gap_merged_event)
  from gap_merged_match [OF m] have "trading_at_or_after stk d' t" by simp
  with none show "\<not> (e_Stkcd e = d_Stkcd d \<and> e_Annodt e = Annodt d)"
    by (auto simp: e trading_at_or_after_def)
qed

lemma scenario_gap_merged:
  "gap_merged scenario_stk scenario_pft =
     [(scenario_pft ! 0, Some (scenario_stk ! 0, Fin 10)), (scenario_pft ! 1, None)]"
  by code_simp

theorem gap_detector_forward_match_witness:
  "trading_at_or_after scenario_stk (scenario_pft ! 0) (scenario_stk ! 0) \<and>
   trading_at_or_after scenario_stk (scenario_pft ! 0) (scenario_stk ! 2) \<and>
   Trddt (scenario_stk ! 0) \<le> Trddt (scenario_stk ! 2) \<and>
   (\<forall>t. \<not> trading_at_or_after scenario_stk (scenario_pft ! 1) t) \<and>
   map e_Trddt (filter_data scenario_stk scenario_pft) = [18445]"
proof -
  have fd: "map e_Trddt (filter_data scenario_stk scenario_pft) = [18445]" by code_simp
  have c: "trading_at_or_after scenario_stk (scenario_pft ! 0) (scenario_stk ! 2)"
    by (simp add: trading_at_or_after_def scenario_stk_def scenario_pft_def stk_complete_def isna_def)
  from gap_detector_forward_match [of scenario_stk scenario_pft]
  show ?thesis unfolding scenario_gap_merged using fd c by simp
qed

lemma gap_pct_of_positive:
  assumes "fgt lo prev" and "fgt prev (Fin 0)"
  shows "fgt (gap_pct_of lo prev) (Fin 0)"
proof (cases prev)
  case (Fin p)
  with assms(2) have p: "0 < p" by simp
  show ?thesis
  proof (cases lo)
    case (Fin l)
    with assms(1) \<open>prev = Fin p\<close> have "p < l" by simp
    with p have "0 < (l - p) / p * 100" by simp
    with p show ?thesis by (simp add: gap_pct_of_def fsub_def Fin \<open>prev = Fin p\<close>)
  next
    case PInf
    with p show ?thesis
      by (simp add: gap_pct_of_def fsub_def inf_of_sign_def \<open>prev = Fin p\<close>)
  qed (use assms \<open>prev = Fin p\<close> in simp_all)
qed (use assms in \<open>cases lo; simp\<close>)+

lemma first_session_prev_null:
  assumes "filter (\<lambda>tp. t_Stkcd (fst tp) = s) (with_prev_Hiprc stk) \<noteq> []"
  shows "snd (hd (filter (\<lambda>tp. t_Stkcd (fst tp) = s) (with_prev_Hiprc stk))) = NaN"
proof -
  let ?G = "filter (\<lambda>tp. t_Stkcd (fst tp) = s) (with_prev_Hiprc stk)"
  have "map snd ?G = shift 1 (map Hiprc (filter (\<lambda>t. t_Stkcd t = s) (stk_sorted stk)))"
    unfolding with_prev_Hiprc_def Let_def
    by (rule groupby_transform_group) simp
  moreover have "length (map snd ?G) = length ?G" by simp
  ultimately have "hd (map snd ?G) = NaN"
    using assms by (cases "map Hiprc (filter (\<lambda>t. t_Stkcd t = s) (stk_sorted stk))")
      (auto simp: shift_def)
  with assms show ?thesis by (simp add: hd_map)
qed

text \<open>
  Claim C2, as amended. Every returned event has a prior high that is not null, a low above
  the prior high, and \<open>gap_pct = (low - prior_high) / prior_high * 100\<close>; the gap is strictly
  positive when the prior high is positive. The first session of an instrument has a null
  prior high, and no kept row is matched to a session whose prior high is null.
\<close>

theorem gap_event_invariant:
  "(\<forall>e\<in>set (filter_data stk pft).
      \<not> isna (e_prev_Hiprc e) \<and> fgt (e_Loprc e) (e_prev_Hiprc e) \<and>
      gap_pct e = fmul (fdiv (fsub (e_Loprc e) (e_prev_Hiprc e)) (e_prev_Hiprc e)) (Fin 100) \<and>
      (fgt (e_prev_Hiprc e) (Fin 0) \<longrightarrow> fgt (gap_pct e) (Fin 0))) \<and>
   (\<forall>s. filter (\<lambda>tp. t_Stkcd (fst tp) = s) (with_prev_Hiprc stk) \<noteq> [] \<longrightarrow>
        snd (hd (filter (\<lambda>tp. t_Stkcd (fst tp) = s) (with_prev_Hiprc stk))) = NaN) \<and>
   (\<forall>r\<in>set (gap_rows stk pft). \<forall>tp. snd r = Some tp \<longrightarrow> \<not> isna (snd tp))"
proof (intro conjI ballI allI impI)
  fix e assume e: "e \<in> set (filter_data stk pft)"
  then obtain d t p where "(d, Some (t, p)) \<in> set (gap_merged stk pft)"
    and gt: "fgt (Loprc t) p"
    and ev: "e = \<lparr> e_Stkcd = d_Stkcd d, e_Reptyp = Reptyp d, e_Annodt = Annodt d,
                  e_Trddt = Trddt t, e_Loprc = Loprc t, e_prev_Hiprc = p,
                  gap_pct = gap_pct_of (Loprc t) p \<rparr>"
    by (rule gap_merged_event)
  show "\<not> isna (e_prev_Hiprc e)" using gt by (auto simp: ev isna_def)
  show "fgt (e_Loprc e) (e_prev_Hiprc e)" using gt by (simp add: ev)
  show "gap_pct e = fmul (fdiv (fsub (e_Loprc e) (e_prev_Hiprc e)) (e_prev_Hiprc e)) (Fin 100)"
    by (simp add: ev gap_pct_of_def)
  assume "fgt (e_prev_Hiprc e) (Fin 0)"
  with gt show "fgt (gap_pct e) (Fin 0)" by (simp add: ev gap_pct_of_positive)
next
  fix s assume "filter (\<lambda>tp. t_Stkcd (fst tp) = s) (with_prev_Hiprc stk) \<noteq> []"
  then show "snd (hd (filter (\<lambda>tp. t_Stkcd (fst tp) = s) (with_prev_Hiprc stk))) = NaN"
    by (rule first_session_prev_null)
next
  fix r tp assume "r \<in> set (gap_rows stk pft)" "snd r = Some tp"
  then show "\<not> isna (snd tp)"
    by (cases tp) (auto simp: gap_rows_def merged_prev_Hiprc_def isna_def)
qed

lemma scenario_filter_data:
  "filter_data scenario_stk scenario_pft =
     [\<lparr> e_Stkcd = ''000001'', e_Reptyp = ''2'', e_Annodt = 18445, e_Trddt = 18445,
         e_Loprc = Fin (21 / 2), e_prev_Hiprc = Fin 10, gap_pct = Fin 5 \<rparr>]"
  by code_simp

theorem gap_event_invariant_witness:
  "map gap_pct (filter_data scenario_stk scenario_pft) = [Fin 5] \<and>
   fgt (Fin 10) (Fin 0) \<and> fgt (Fin 5) (Fin 0) \<and>
   snd (hd (filter (\<lambda>tp. t_Stkcd (fst tp) = ''000001'') (with_prev_Hiprc scenario_stk))) = NaN"
proof -
  have ne: "filter (\<lambda>tp. t_Stkcd (fst tp) = ''000001'') (with_prev_Hiprc scenario_stk) \<noteq> []"
    by code_simp
  note inv = gap_event_invariant [of scenario_stk scenario_pft]
  from inv ne
  have "snd (hd (filter (\<lambda>tp. t_Stkcd (fst tp) = ''000001'') (with_prev_Hiprc scenario_stk))) = NaN"
    by blast
  then show ?thesis by (simp add: scenario_filter_data)
qed

text \<open>
  The sign of \<open>gap_pct\<close> is the sign of the prior high: with a prior high of -2 and a low
  of -1 the mask keeps the row and the gap is -50.
\<close>

theorem gap_pct_negative_counterexample:
  "map gap_pct (filter_data negative_stk negative_pft) = [Fin (- 50)] \<and>
   \<not> fgt (Fin (- 50)) (Fin 0)"
  by code_simp

text \<open>
  Claim C10. The detector returns at most one event per complete disclosure: the events,
  read by (instrument, report type, announce date), are a subsequence of the complete
  disclosures in announce order, whatever the trading table holds.
\<close>

theorem gap_events_bounded:
  "length (filter_data stk pft) \<le> length (dropna_pft pft) \<and>
   length (dropna_pft pft) \<le> length pft \<and>
   subseq (map (\<lambda>e. (e_Stkcd e, e_Reptyp e, e_Annodt e)) (filter_data stk pft))
          (map (\<lambda>d. (d_Stkcd d, Reptyp d, Annodt d)) (sort_values Annodt (dropna_pft pft)))"
proof -
  have sub: "subseq (gap_rows stk pft) (gap_merged stk pft)"
    by (simp add: gap_rows_def)
  have keys: "map (\<lambda>e. (e_Stkcd e, e_Reptyp e, e_Annodt e)) (filter_data stk pft)
      = map (\<lambda>r. (d_Stkcd (fst r), Reptyp (fst r), Annodt (fst r))) (gap_rows stk pft)"
    unfolding filter_data_eq map_map
  proof (rule map_cong [OF refl])
    fix r assume "r \<in> set (gap_rows stk pft)"
    from gap_rows_matched [OF this] show
      "((\<lambda>e. (e_Stkcd e, e_Reptyp e, e_Annodt e)) \<circ> (\<lambda>r. the (event_of r))) r
         = (d_Stkcd (fst r), Reptyp (fst r), Annodt (fst r))"
      by (auto simp: event_of_def split: option.splits)
  qed
  have "subseq (map (\<lambda>r. (d_Stkcd (fst r), Reptyp (fst r), Annodt (fst r))) (gap_rows stk pft))
               (map (\<lambda>r. (d_Stkcd (fst r), Reptyp (fst r), Annodt (fst r))) (gap_merged stk pft))"
    using sub by (rule subseq_map)
  also have "map (\<lambda>r. (d_Stkcd (fst r), Reptyp (fst r), Annodt (fst r))) (gap_merged stk pft)
      = map (\<lambda>d. (d_Stkcd d, Reptyp d, Annodt d)) (map fst (gap_merged stk pft))"
    by (simp add: comp_def)
  finally have s: "subseq (map (\<lambda>e. (e_Stkcd e, e_Reptyp e, e_Annodt e)) (filter_data stk pft))
          (map (\<lambda>d. (d_Stkcd d, Reptyp d, Annodt d)) (sort_values Annodt (dropna_pft pft)))"
    by (simp add: keys gap_merged_fst)
  have "length (filter_data stk pft) \<le> length (gap_merged stk pft)"
    using sub by (simp add: filter_data_eq gap_rows_def)
  also have "\<dots> = length (dropna_pft pft)"
    using arg_cong [OF gap_merged_fst [of stk pft], of length] by (simp add: sort_values_def)
  finally have l: "length (filter_data stk pft) \<le> length (dropna_pft pft)" .
  have "length (dropna_pft pft) \<le> length pft" by (simp add: dropna_pft_def)
  with s l show ?thesis by simp
qed

section \<open>Properties of the Growth Feature Builder\<close>

lemma length_ffill_from [simp]: "length (ffill_from prev xs) = length xs"
  by (induction xs arbitrary: prev) (auto simp: Let_def)

lemma length_filled [simp]: "length (filled pad xs) = length xs"
  by (simp add: filled_def ffill_def)

lemma length_pct_change [simp]: "length (pct_change pad n xs) = length xs"
  by (simp add: pct_change_def)

lemma fdiv_NaN [simp]: "fdiv a NaN = NaN"
  by (cases a) simp_all

lemma fsub_NaN [simp]: "fsub NaN b = NaN"
  by (simp add: fsub_def)

lemma pct_change_nth:
  assumes "i < length xs"
  shows "pct_change pad n xs ! i =
           (if i < n then NaN
            else fsub (fdiv (filled pad xs ! i) (filled pad xs ! (i - n))) (Fin 1))"
  using assms by (simp add: pct_change_def shift_nth)

lemma ffill_from_no_null: "\<forall>x\<in>set xs. \<not> isna x \<Longrightarrow> ffill_from prev xs = xs"
  by (induction xs arbitrary: prev) (auto simp: Let_def)

lemma filled_no_null: "\<not> pad \<or> (\<forall>x\<in>set xs. \<not> isna x) \<Longrightarrow> filled pad xs = xs"
  by (auto simp: filled_def ffill_def ffill_from_no_null)

lemma with_growth_sel [simp]:
  "d_Stkcd (with_growth d g) = d_Stkcd d"
  "Annodt (with_growth d g) = Annodt d"
  "Profita (with_growth d g) = Profita d"
  "profit_growth (with_growth d g) = fst g"
  "profit_growth_2y (with_growth d g) = snd g"
  "pft_row.truncate (with_growth d g) = d"
  by (simp_all add: with_growth_def pft_row.truncate_def)

lemma filter_with_growth:
  "length rows = length as \<Longrightarrow> length as = length bs \<Longrightarrow>
   filter (\<lambda>f. d_Stkcd f = s) (map2 with_growth rows (zip as bs)) =
     map2 with_growth (filter (\<lambda>d. d_Stkcd d = s) rows)
       (zip (map snd (filter (\<lambda>p. d_Stkcd (fst p) = s) (zip rows as)))
            (map snd (filter (\<lambda>p. d_Stkcd (fst p) = s) (zip rows bs))))"
  by (induction rows as bs rule: list_induct3) simp_all

lemma map2_with_growth_cols:
  assumes "length rows = length as" "length as = length bs"
  shows "map profit_growth (map2 with_growth rows (zip as bs)) = as"
    and "map profit_growth_2y (map2 with_growth rows (zip as bs)) = bs"
    and "map Profita (map2 with_growth rows (zip as bs)) = map Profita rows"
    and "map Annodt (map2 with_growth rows (zip as bs)) = map Annodt rows"
    and "map pft_row.truncate (map2 with_growth rows (zip as bs)) = rows"
  using assms by (induction rows as bs rule: list_induct3) simp_all

lemma sorted_instrument:
  "sorted (map (\<lambda>d. (k d, a d)) xs) \<Longrightarrow> sorted (map a (filter (\<lambda>d. k d = s) xs))"
  by (induction xs) (auto simp: less_eq_prod_def)

lemma instrument_series_preprocess:
  "instrument_series s (preprocess_financial_data pad fin_data) =
     map2 with_growth
       (filter (\<lambda>d. d_Stkcd d = s) (sort_values (\<lambda>d. (d_Stkcd d, Annodt d)) fin_data))
       (zip (pct_change pad 1 (map Profita
               (filter (\<lambda>d. d_Stkcd d = s) (sort_values (\<lambda>d. (d_Stkcd d, Annodt d)) fin_data))))
            (pct_change pad 4 (map Profita
               (filter (\<lambda>d. d_Stkcd d = s) (sort_values (\<lambda>d. (d_Stkcd d, Annodt d)) fin_data)))))"
proof -
  let ?rows = "sort_values (\<lambda>d. (d_Stkcd d, Annodt d)) fin_data"
  have g: "map snd (filter (\<lambda>p. d_Stkcd (fst p) = s)
              (zip ?rows (groupby_transform d_Stkcd Profita (pct_change pad n) ?rows)))
           = pct_change pad n (map Profita (filter (\<lambda>d. d_Stkcd d = s) ?rows))" for n
    by (rule groupby_transform_group) simp
  show ?thesis
    unfolding instrument_series_def preprocess_financial_data_def Let_def
    by (subst filter_with_growth) (simp_all add: g)
qed

text \<open>
  Claim C5, as amended. Let \<open>G\<close> be the rows of one instrument in the table that
  \<^verbatim>\<open>preprocess_financial_data\<close> returns, and \<open>P\<close> their profit column (forward-filled when
  the library's default does so; it is the profit column itself when that default is off
  or no profit is null). \<open>G\<close> is the instrument's input rows in announce-date order;
  \<open>profit_growth\<close> is null at the first row and \<open>P[i] / P[i-1] - 1\<close> after it;
  \<open>profit_growth_2y\<close> is null at the first four rows and \<open>P[i] / P[i-4] - 1\<close> from the fifth
  on. When \<open>P[i-1]\<close> is zero the growth is not null: it is plus or minus infinity by the
  sign of \<open>P[i]\<close>, and null only when \<open>P[i]\<close> is zero too.
\<close>

theorem growth_features:
  "let G = instrument_series s (preprocess_financial_data pad fin_data);
       P = filled pad (map Profita G)
   in map pft_row.truncate G =
        instrument_series s (sort_values (\<lambda>d. (d_Stkcd d, Annodt d)) fin_data) \<and>
      sorted (map Annodt G) \<and>
      (\<forall>i<length G.
         profit_growth (G ! i) =
           (if i < 1 then NaN else fsub (fdiv (P ! i) (P ! (i - 1))) (Fin 1)) \<and>
         profit_growth_2y (G ! i) =
           (if i < 4 then NaN else fsub (fdiv (P ! i) (P ! (i - 4))) (Fin 1))) \<and>
      (\<forall>i<length G. \<forall>a. 0 < i \<and> P ! (i - 1) = Fin 0 \<and> P ! i = Fin a \<longrightarrow>
         profit_growth (G ! i) = (if 0 < a then PInf else if a < 0 then NInf else NaN)) \<and>
      (\<not> pad \<or> (\<forall>x\<in>set (map Profita G). \<not> isna x) \<longrightarrow> P = map Profita G)"
proof -
  define R where "R = filter (\<lambda>d. d_Stkcd d = s) (sort_values (\<lambda>d. (d_Stkcd d, Annodt d)) fin_data)"
  define G where "G = instrument_series s (preprocess_financial_data pad fin_data)"
  define P where "P = filled pad (map Profita G)"
  have G: "G = map2 with_growth R (zip (pct_change pad 1 (map Profita R)) (pct_change pad 4 (map Profita R)))"
    unfolding G_def R_def by (rule instrument_series_preprocess)
  have len: "length R = length (pct_change pad 1 (map Profita R))"
    "length (pct_change pad 1 (map Profita R)) = length (pct_change pad 4 (map Profita R))"
    by simp_all
  note cols = map2_with_growth_cols [OF len, folded G]
  have lenG: "length G = length R" using arg_cong [OF cols(5), of length] by simp
  have PR: "P = filled pad (map Profita R)" by (simp add: P_def cols(3))
  have trunc: "map pft_row.truncate G =
        instrument_series s (sort_values (\<lambda>d. (d_Stkcd d, Annodt d)) fin_data)"
    by (simp add: cols(5) R_def instrument_series_def)
  have "sorted (map Annodt R)"
    unfolding R_def by (rule sorted_instrument) (simp add: sort_values_def)
  then have srt: "sorted (map Annodt G)" by (simp add: cols(4))
  have g1: "profit_growth (G ! i) =
           (if i < 1 then NaN else fsub (fdiv (P ! i) (P ! (i - 1))) (Fin 1))" if "i < length G" for i
  proof -
    have "profit_growth (G ! i) = map profit_growth G ! i" using that by simp
    also have "\<dots> = pct_change pad 1 (map Profita R) ! i" by (simp only: cols(1))
    finally show ?thesis using that lenG by (simp add: pct_change_nth PR)
  qed
  have g4: "profit_growth_2y (G ! i) =
           (if i < 4 then NaN else fsub (fdiv (P ! i) (P ! (i - 4))) (Fin 1))" if "i < length G" for i
  proof -
    have "profit_growth_2y (G ! i) = map profit_growth_2y G ! i" using that by simp
    also have "\<dots> = pct_change pad 4 (map Profita R) ! i" by (simp only: cols(2))
    finally show ?thesis using that lenG by (simp add: pct_change_nth PR)
  qed
  have zero: "profit_growth (G ! i) = (if 0 < a then PInf else if a < 0 then NInf else NaN)"
    if "i < length G" "0 < i \<and> P ! (i - 1) = Fin 0 \<and> P ! i = Fin a" for i a
    using g1 [OF that(1)] that(2) by (simp add: fsub_def inf_of_sign_def)
  have nopad: "P = map Profita G" if "\<not> pad \<or> (\<forall>x\<in>set (map Profita G). \<not> isna x)"
    unfolding P_def using that by (rule filled_no_null)
  from trunc srt g1 g4 zero nopad show ?thesis
    unfolding G_def [symmetric] P_def [symmetric] Let_def by blast
qed

theorem growth_features_witness:
  "profit_growth (instrument_series ''000001'' (preprocess_financial_data False five_quarters) ! 0) = NaN \<and>
   profit_growth (instrument_series ''000001'' (preprocess_financial_data False five_quarters) ! 1) = Fin (1 / 2) \<and>
   profit_growth (instrument_series ''000001'' (preprocess_financial_data False five_quarters) ! 3) = PInf \<and>
   profit_growth_2y (instrument_series ''000001'' (preprocess_financial_data False five_quarters) ! 3) = NaN \<and>
   profit_growth_2y (instrument_series ''000001'' (preprocess_financial_data False five_quarters) ! 4) = Fin (3 / 5)"
proof -
  define G where "G = instrument_series ''000001'' (preprocess_financial_data False five_quarters)"
  have len: "length G = 5" unfolding G_def by code_simp
  have P: "filled False (map Profita G) = [Fin 100, Fin 150, Fin 0, Fin 30, Fin 160]"
    unfolding G_def by code_simp
  from growth_features [of "''000001''" False five_quarters]
  have "\<forall>i<length G.
         profit_growth (G ! i) =
           (if i < 1 then NaN
            else fsub (fdiv (filled False (map Profita G) ! i)
                            (filled False (map Profita G) ! (i - 1))) (Fin 1)) \<and>
         profit_growth_2y (G ! i) =
           (if i < 4 then NaN
            else fsub (fdiv (filled False (map Profita G) ! i)
                            (filled False (map Profita G) ! (i - 4))) (Fin 1))"
    unfolding G_def Let_def by blast
  then have "profit_growth (G ! 0) = NaN" "profit_growth (G ! 1) = Fin (1 / 2)"
    "profit_growth (G ! 3) = PInf" "profit_growth_2y (G ! 3) = NaN"
    "profit_growth_2y (G ! 4) = Fin (3 / 5)"
    unfolding P len by (simp_all add: fsub_def inf_of_sign_def)
  then show ?thesis unfolding G_def by simp
qed

text \<open>
  An instrument with the profits 0 and 5: the growth at the second record is plus infinity,
  which is not a null (\<^verbatim>\<open>dropna\<close> keeps the row), under either default of the library.
\<close>

theorem growth_zero_base_counterexample:
  "map Profita (instrument_series ''000002'' (preprocess_financial_data False five_quarters))
     = [Fin 0, Fin 5] \<and>
   map profit_growth (instrument_series ''000002'' (preprocess_financial_data False five_quarters))
     = [NaN, PInf] \<and>
   map profit_growth (instrument_series ''000002'' (preprocess_financial_data True five_quarters))
     = [NaN, PInf] \<and>
   \<not> isna PInf"
  by code_simp

section \<open>Properties of the Strategy Selector\<close>

lemma growth_merged_match:
  assumes "r \<in> set (growth_merged gap_events fin_data)"
  shows "ev r \<in> set gap_events \<and>
         (case gr r of
            None \<Rightarrow> (\<forall>f. \<not> complete_growth_at_or_before fin_data (ev r) f)
          | Some g \<Rightarrow> complete_growth_at_or_before fin_data (ev r) g \<and>
                      (\<forall>f. complete_growth_at_or_before fin_data (ev r) f \<longrightarrow> Annodt f \<le> Annodt g))"
proof -
  let ?right = "sort_values Annodt (dropna_fin fin_data)"
  let ?P = "\<lambda>f. d_Stkcd f = e_Stkcd (ev r) \<and> Annodt f \<le> e_Annodt (ev r)"
  from assms have e: "ev r \<in> set gap_events" and m: "gr r = find ?P (rev ?right)"
    by (auto simp: growth_merged_def merge_asof_backward_def joined_def sort_values_def)
  have srt: "sorted (map Annodt ?right)" by (simp add: sort_values_def)
  have cand: "complete_growth_at_or_before fin_data (ev r) f \<longleftrightarrow> f \<in> set ?right \<and> ?P f" for f
    by (auto simp: complete_growth_at_or_before_def sort_values_def dropna_fin_def)
  show ?thesis
  proof (cases "gr r")
    case None
    then have "\<not> ?P f" if "f \<in> set ?right" for f
      using m that find_NoneD [of ?P "rev ?right" f] by simp
    then show ?thesis using None cand e by auto
  next
    case (Some g)
    then have f: "find ?P (rev ?right) = Some g" using m by simp
    from find_SomeD [OF f] have a: "complete_growth_at_or_before fin_data (ev r) g"
      unfolding cand by simp
    have "Annodt f \<le> Annodt g" if "complete_growth_at_or_before fin_data (ev r) f" for f
      using find_rev_sorted_greatest [OF srt f] that cand by blast
    with a e Some show ?thesis by simp
  qed
qed

lemma merge_left_rows:
  assumes "r' \<in> set (merge_left merged (temp k fin_data))"
  shows "\<exists>r\<in>set merged. \<exists>v. r' = r\<lparr>q_ago := q_ago r @ [v]\<rparr> \<and> offset_value fin_data (ev r) k v"
proof -
  let ?key = "\<lambda>r t. fst t = e_Stkcd (ev r) \<and> fst (snd t) = e_Annodt (ev r)"
  from assms obtain r where r: "r \<in> set merged"
    and r': "r' \<in> set (case filter (?key r) (temp k fin_data) of
           [] \<Rightarrow> [r\<lparr>q_ago := q_ago r @ [NaN]\<rparr>]
         | ms \<Rightarrow> map (\<lambda>t. r\<lparr>q_ago := q_ago r @ [snd (snd t)]\<rparr>) ms)"
    by (auto simp: merge_left_def)
  let ?ms = "filter (\<lambda>f. d_Stkcd f = e_Stkcd (ev r) \<and> add_months (3 * int k) (Annodt f) = e_Annodt (ev r)) fin_data"
  have tm: "filter (?key r) (temp k fin_data)
         = map (\<lambda>f. (d_Stkcd f, add_months (3 * int k) (Annodt f), profit_growth f)) ?ms"
    by (simp add: temp_def filter_map comp_def)
  show ?thesis
  proof (cases "?ms = []")
    case True
    with r' tm have "r' = r\<lparr>q_ago := q_ago r @ [NaN]\<rparr>" by simp
    moreover have "offset_value fin_data (ev r) k NaN"
      using True by (simp add: offset_value_def)
    ultimately show ?thesis using r by blast
  next
    case False
    then have "filter (?key r) (temp k fin_data) \<noteq> []" using tm by simp
    with r' have "r' \<in> set (map (\<lambda>t. r\<lparr>q_ago := q_ago r @ [snd (snd t)]\<rparr>)
                        (filter (?key r) (temp k fin_data)))"
      by (cases "filter (?key r) (temp k fin_data)") simp_all
    then obtain f where "f \<in> set ?ms" "r' = r\<lparr>q_ago := q_ago r @ [profit_growth f]\<rparr>"
      unfolding tm by auto
    moreover from this have "offset_value fin_data (ev r) k (profit_growth f)"
      using False by (auto simp: offset_value_def Let_def)
    ultimately show ?thesis using r by blast
  qed
qed

lemma merge_left_keeps:
  assumes "r \<in> set merged"
  shows "\<exists>r'\<in>set (merge_left merged tmp). ev r' = ev r \<and> gr r' = gr r"
proof -
  let ?ms = "filter (\<lambda>t. fst t = e_Stkcd (ev r) \<and> fst (snd t) = e_Annodt (ev r)) tmp"
  let ?out = "case ?ms of [] \<Rightarrow> [r\<lparr>q_ago := q_ago r @ [NaN]\<rparr>]
         | ms \<Rightarrow> map (\<lambda>t. r\<lparr>q_ago := q_ago r @ [snd (snd t)]\<rparr>) ms"
  have "set ?out \<subseteq> set (merge_left merged tmp)"
    using assms by (auto simp: merge_left_def)
  moreover have "\<exists>r'\<in>set ?out. ev r' = ev r \<and> gr r' = gr r"
    by (cases ?ms) auto
  ultimately show ?thesis by blast
qed

lemma fold_merge_left_rows:
  assumes "r' \<in> set (fold (\<lambda>i m. merge_left m (temp i fin_data)) ks merged)"
  shows "\<exists>r\<in>set merged. \<exists>vs. ev r' = ev r \<and> gr r' = gr r \<and> buy_date r' = buy_date r \<and>
           sell_date r' = sell_date r \<and> q_ago r' = q_ago r @ vs \<and>
           list_all2 (offset_value fin_data (ev r)) ks vs"
  using assms
proof (induction ks arbitrary: merged)
  case Nil
  then show ?case by auto
next
  case (Cons k ks)
  from Cons.IH [of "merge_left merged (temp k fin_data)"] Cons.prems
  obtain r1 vs where r1: "r1 \<in> set (merge_left merged (temp k fin_data))"
    and eq: "ev r' = ev r1" "gr r' = gr r1" "buy_date r' = buy_date r1" "sell_date r' = sell_date r1"
      "q_ago r' = q_ago r1 @ vs"
    and all: "list_all2 (offset_value fin_data (ev r1)) ks vs"
    by auto
  from merge_left_rows [OF r1] obtain r v where r: "r \<in> set merged"
    and r1': "r1 = r\<lparr>q_ago := q_ago r @ [v]\<rparr>" and v: "offset_value fin_data (ev r) k v"
    by blast
  have "list_all2 (offset_value fin_data (ev r)) (k # ks) (v # vs)"
    using all v by (simp add: r1')
  moreover have "q_ago r' = q_ago r @ (v # vs)" using eq r1' by simp
  ultimately show ?case using r eq r1' by (intro bexI [of _ r] exI [of _ "v # vs"]) simp_all
qed

lemma fold_merge_left_keeps:
  assumes "r \<in> set merged"
  shows "\<exists>r'\<in>set (fold (\<lambda>i m. merge_left m (temp i fin_data)) ks merged). ev r' = ev r \<and> gr r' = gr r"
  using assms
proof (induction ks arbitrary: merged r)
  case Nil
  then show ?case by auto
next
  case (Cons k ks)
  from merge_left_keeps [OF Cons.prems, of "temp k fin_data"]
  obtain r1 where r1: "r1 \<in> set (merge_left merged (temp k fin_data))"
    and eq: "ev r1 = ev r" "gr r1 = gr r" by blast
  from Cons.IH [OF r1] eq show ?case by auto
qed

lemma growth_offsets_rows:
  assumes "r' \<in> set (growth_offsets fin_data (growth_merged gap_events fin_data))"
  shows "\<exists>r\<in>set (growth_merged gap_events fin_data).
           ev r' = ev r \<and> gr r' = gr r \<and> buy_date r' = None \<and> sell_date r' = None \<and>
           list_all2 (offset_value fin_data (ev r)) [1..<9] (q_ago r')"
proof -
  from fold_merge_left_rows [OF assms [unfolded growth_offsets_def]]
  obtain r vs where r: "r \<in> set (growth_merged gap_events fin_data)"
    and eq: "ev r' = ev r" "gr r' = gr r" "buy_date r' = buy_date r" "sell_date r' = sell_date r"
      "q_ago r' = q_ago r @ vs"
    and all: "list_all2 (offset_value fin_data (ev r)) [1..<9] vs"
    by blast
  from r have "q_ago r = []" "buy_date r = None" "sell_date r = None"
    by (auto simp: growth_merged_def joined_def)
  with r eq all show ?thesis by auto
qed

text \<open>
  Claim C6, as amended. In the joined table (and so in the selected rows, which are some
  of its rows) a record announced strictly after the event is never attached. The growth
  record attached to an event is a growth record of the same instrument announced at or
  before the event's announce date that has no null cell, and no such record has a later
  announce date; the growth columns are null exactly when there is no such record. The
  candidates are the records at or before the event date that survive
  \<^verbatim>\<open>fin_data.dropna()\<close>, not all the records at or before it.
\<close>

theorem backward_asof_no_lookahead:
  "(\<forall>r\<in>set (growth_offsets fin_data (growth_merged gap_events fin_data)).
      case gr r of
        None \<Rightarrow> (\<forall>f. \<not> complete_growth_at_or_before fin_data (ev r) f)
      | Some g \<Rightarrow> g \<in> set fin_data \<and> d_Stkcd g = e_Stkcd (ev r) \<and>
                  Annodt g \<le> e_Annodt (ev r) \<and>
                  complete_growth_at_or_before fin_data (ev r) g \<and>
                  (\<forall>f. complete_growth_at_or_before fin_data (ev r) f \<longrightarrow> Annodt f \<le> Annodt g)) \<and>
   set (strategy_consistent_growth gap_events fin_data)
     \<subseteq> set (growth_offsets fin_data (growth_merged gap_events fin_data)) \<and>
   (\<forall>e f. complete_growth_at_or_before fin_data e f =
            (growth_record_at_or_before fin_data e f \<and> fin_complete f))"
proof (intro conjI ballI allI)
  fix r' assume "r' \<in> set (growth_offsets fin_data (growth_merged gap_events fin_data))"
  from growth_offsets_rows [OF this] obtain r
    where r: "r \<in> set (growth_merged gap_events fin_data)" and eq: "ev r' = ev r" "gr r' = gr r"
    by auto
  from growth_merged_match [OF r] show "case gr r' of
        None \<Rightarrow> (\<forall>f. \<not> complete_growth_at_or_before fin_data (ev r') f)
      | Some g \<Rightarrow> g \<in> set fin_data \<and> d_Stkcd g = e_Stkcd (ev r') \<and>
                  Annodt g \<le> e_Annodt (ev r') \<and>
                  complete_growth_at_or_before fin_data (ev r') g \<and>
                  (\<forall>f. complete_growth_at_or_before fin_data (ev r') f \<longrightarrow> Annodt f \<le> Annodt g)"
    unfolding eq by (cases "gr r") (auto simp: complete_growth_at_or_before_def)
next
  show "set (strategy_consistent_growth gap_events fin_data)
     \<subseteq> set (growth_offsets fin_data (growth_merged gap_events fin_data))"
    by (auto simp: strategy_consistent_growth_def)
next
  fix e f
  show "complete_growth_at_or_before fin_data e f =
            (growth_record_at_or_before fin_data e f \<and> fin_complete f)"
    by (auto simp: complete_growth_at_or_before_def growth_record_at_or_before_def)
qed

text \<open>
  Claim C8. After the loop every row of the joined table has the eight offset columns, and
  for each \<open>k\<close> in 1..8 column \<open>k\<close> holds the growth of a disclosure of the same instrument
  whose announce date moved forward by \<open>3k\<close> months equals the row's announce date, and a
  null when no disclosure has exactly that shifted date. The join is a left join: every
  row of the joined table before the loop is still there after it.
\<close>

theorem offset_growth_exact_join:
  "(\<forall>r\<in>set (growth_offsets fin_data (growth_merged gap_events fin_data)).
      length (q_ago r) = 8 \<and>
      (\<forall>k\<in>{1..8}. offset_value fin_data (ev r) k (q_ago r ! (k - 1)))) \<and>
   (\<forall>r0\<in>set (growth_merged gap_events fin_data).
      \<exists>r\<in>set (growth_offsets fin_data (growth_merged gap_events fin_data)).
        ev r = ev r0 \<and> gr r = gr r0)"
proof (intro conjI ballI)
  fix r' assume "r' \<in> set (growth_offsets fin_data (growth_merged gap_events fin_data))"
  from growth_offsets_rows [OF this] obtain r
    where "r \<in> set (growth_merged gap_events fin_data)" and eq: "ev r' = ev r"
      and all: "list_all2 (offset_value fin_data (ev r)) [1..<9] (q_ago r')"
    by auto
  have len: "length (q_ago r') = length [1..<9]"
    using list_all2_lengthD [OF all] by simp
  then show "length (q_ago r') = 8" by simp
  fix k :: nat assume "k \<in> {1..8}"
  then have k: "k - 1 < length [1..<9]" "[1..<9] ! (k - 1) = k" by auto
  from list_all2_nthD [OF all k(1)] k(2) eq
  show "offset_value fin_data (ev r') k (q_ago r' ! (k - 1))" by simp
next
  fix r0 assume "r0 \<in> set (growth_merged gap_events fin_data)"
  then show "\<exists>r\<in>set (growth_offsets fin_data (growth_merged gap_events fin_data)).
        ev r = ev r0 \<and> gr r = gr r0"
    unfolding growth_offsets_def by (rule fold_merge_left_keeps)
qed

lemma add_months_civil:
  "civil_from_days z = (y, m, d) \<Longrightarrow>
   add_months n z =
     days_from_civil ((y * 12 + (m - 1) + n) div 12) ((y * 12 + (m - 1) + n) mod 12 + 1)
       (min d (days_in_month ((y * 12 + (m - 1) + n) div 12) ((y * 12 + (m - 1) + n) mod 12 + 1)))"
  by (simp add: add_months_def Let_def)

lemma civil_samples:
  "civil_from_days 18566 = (2020, 10, 31)"
  "civil_from_days 18747 = (2021, 4, 30)"
  "civil_from_days 18839 = (2021, 7, 31)"
  by (simp_all add: civil_from_days_def cong: let_weak_cong)

lemma add_months_samples:
  "add_months 3 18566 = 18658"
  "add_months 6 18566 = 18747"
  "add_months 9 18566 = 18839"
  "add_months 12 18566 = 18931"
  "add_months 15 18566 = 19023"
  "add_months 18 18566 = 19112"
  "add_months 21 18566 = 19204"
  "add_months 24 18566 = 19296"
  "add_months 3 18747 = 18838"
  "add_months 6 18747 = 18930"
  "add_months 9 18747 = 19022"
  "add_months 12 18747 = 19112"
  "add_months 15 18747 = 19203"
  "add_months 18 18747 = 19295"
  "add_months 21 18747 = 19387"
  "add_months 24 18747 = 19477"
  "add_months 3 18839 = 18931"
  "add_months 6 18839 = 19023"
  "add_months 9 18839 = 19112"
  "add_months 12 18839 = 19204"
  "add_months 15 18839 = 19296"
  "add_months 18 18839 = 19388"
  "add_months 21 18839 = 19477"
  "add_months 24 18839 = 19569"
  by (simp_all add: add_months_civil [OF civil_samples(1)] add_months_civil [OF civil_samples(2)]
      add_months_civil [OF civil_samples(3)] days_from_civil_def days_in_month_def is_leap_def
      cong: let_weak_cong)

lemma upt_1_9: "[1..<9] = [1, 2, 3, 4, 5, 6, 7, 8]"
  by code_simp

lemma growth_merged_samples:
  "growth_merged [event_2021, event_2020] growth_table =
     [joined (event_2020, None), joined (event_2021, Some (growth_table ! 1))]"
  by code_simp

lemma joined_table_rows:
  "joined_table =
     [(joined (event_2020, None))\<lparr>q_ago := [NaN, NaN, NaN, NaN, NaN, NaN, NaN, NaN]\<rparr>,
      (joined (event_2021, Some (growth_table ! 1)))\<lparr>q_ago := [NaN, Fin (- 1), NaN, NaN, NaN, NaN, NaN, NaN]\<rparr>]"
  unfolding joined_table_def growth_merged_samples growth_offsets_def upt_1_9
  by (simp add: merge_left_def temp_def growth_table_def joined_def event_2021_def event_2020_def
      add_months_samples)

theorem backward_asof_no_lookahead_witness:
  "(\<forall>f. \<not> complete_growth_at_or_before growth_table event_2020 f) \<and>
   complete_growth_at_or_before growth_table event_2021 (growth_table ! 1) \<and>
   Annodt (growth_table ! 1) \<le> e_Annodt event_2021"
proof -
  note th = backward_asof_no_lookahead [of growth_table "[event_2021, event_2020]",
      folded joined_table_def, THEN conjunct1, unfolded joined_table_rows]
  then show ?thesis by (simp add: joined_def)
qed

text \<open>
  The newest growth record at or before the event date has null cells: \<^verbatim>\<open>dropna\<close> removes
  it before the join, and the older record is attached instead, in the joined table
  before and after the loop.
\<close>

theorem older_growth_attached_counterexample:
  "map (\<lambda>r. map_option Annodt (gr r)) (growth_merged [event_late] null_growth_table)
     = [Some 18747] \<and>
   map (\<lambda>r. map_option Annodt (gr r))
     (growth_offsets null_growth_table (growth_merged [event_late] null_growth_table))
     = [Some 18747] \<and>
   growth_record_at_or_before null_growth_table event_late (null_growth_table ! 1) \<and>
   Annodt (null_growth_table ! 1) = 18839 \<and>
   \<not> fin_complete (null_growth_table ! 1)"
proof -
  have m: "growth_merged [event_late] null_growth_table
             = [joined (event_late, Some (null_growth_table ! 0))]"
    by code_simp
  have o: "growth_offsets null_growth_table (growth_merged [event_late] null_growth_table)
     = [(joined (event_late, Some (null_growth_table ! 0)))
          \<lparr>q_ago := [NaN, NaN, NaN, NaN, NaN, NaN, NaN, NaN]\<rparr>]"
    unfolding m growth_offsets_def upt_1_9
    by (simp add: merge_left_def temp_def null_growth_table_def joined_def event_late_def
        add_months_samples)
  have r: "growth_record_at_or_before null_growth_table event_late (null_growth_table ! 1)"
    "Annodt (null_growth_table ! 1) = 18839" "\<not> fin_complete (null_growth_table ! 1)"
    by (simp_all add: growth_record_at_or_before_def null_growth_table_def event_late_def
        fin_complete_def isna_def)
  have a: "map (\<lambda>r. map_option Annodt (gr r)) (growth_merged [event_late] null_growth_table)
     = [Some 18747]"
    unfolding m by (simp add: joined_def null_growth_table_def)
  have b: "map (\<lambda>r. map_option Annodt (gr r))
     (growth_offsets null_growth_table (growth_merged [event_late] null_growth_table))
     = [Some 18747]"
    unfolding o by (simp add: joined_def null_growth_table_def)
  from a b r show ?thesis by (intro conjI)
qed

theorem offset_growth_exact_join_witness:
  "offset_value growth_table event_2021 1 NaN \<and>
   offset_value growth_table event_2021 2 (Fin (- 1)) \<and>
   offset_value growth_table event_2020 2 NaN"
proof -
  note th = offset_growth_exact_join [of growth_table "[event_2021, event_2020]",
      folded joined_table_def, THEN conjunct1, unfolded joined_table_rows]
  then have a: "\<forall>k\<in>{1..8}. offset_value growth_table event_2020 k
                    ([NaN, NaN, NaN, NaN, NaN, NaN, NaN, NaN] ! (k - 1))"
    and b: "\<forall>k\<in>{1..8}. offset_value growth_table event_2021 k
                    ([NaN, Fin (- 1), NaN, NaN, NaN, NaN, NaN, NaN] ! (k - 1))"
    by (simp_all add: joined_def)
  have k: "(1::nat) \<in> {1..8}" "(2::nat) \<in> {1..8}" by simp_all
  from bspec [OF b k(1)] bspec [OF b k(2)] bspec [OF a k(2)] show ?thesis by simp
qed

text \<open>
  Claim C3 against the code: the mask is \<^verbatim>\<open>merged['profit_growth_2y'] > 50\<close> on a column
  that holds fractions. The event of 2021 is joined to a growth record with
  \<open>profit_growth_2y = 0.6\<close>, which exceeds 0.5, and the selector returns no row.
\<close>

theorem selection_threshold_is_fifty:
  "map sel_profit_growth_2y joined_table = [NaN, Fin (3 / 5)] \<and>
   fgt (Fin (3 / 5)) (Fin (1 / 2)) \<and>
   strategy_consistent_growth [event_2021, event_2020] growth_table = []"
  unfolding strategy_consistent_growth_def joined_table_def [symmetric] joined_table_rows
  by (simp add: sel_profit_growth_2y_def condition_def joined_def growth_table_def)

section \<open>Properties of the Backtest Engine\<close>

lemma merge_asof_forward_fst [simp]:
  "map fst (merge_asof_forward lby lon rby ron left right) = left"
  by (simp add: merge_asof_forward_def comp_def)

lemma merge_asof_backward_fst [simp]:
  "map fst (merge_asof_backward lby lon rby ron left right) = left"
  by (simp add: merge_asof_backward_def comp_def)

lemma fst_set_merge_asof [simp]:
  "fst ` set (merge_asof_forward lby lon rby ron left right) = set left"
  "fst ` set (merge_asof_backward lby lon rby ron left right) = set left"
  by (force simp: merge_asof_forward_def merge_asof_backward_def)+

lemma set_merge_sell_buy_dates:
  "held_buy_date ` set (merge_sell hold_period selected_stocks price_data)
     = (\<lambda>r. e_Trddt (ev r)) ` set selected_stocks"
proof -
  have "held_buy_date ` set (merge_sell hold_period selected_stocks price_data)
      = pos_buy_date ` fst ` fst ` set (merge_sell hold_period selected_stocks price_data)"
    by (simp add: image_image held_buy_date_def)
  also have "\<dots> = pos_buy_date ` open_position hold_period ` set selected_stocks"
    by (simp add: merge_sell_def merge_buy_def sort_values_def)
  also have "\<dots> = (\<lambda>r. e_Trddt (ev r)) ` set selected_stocks"
    by (simp add: image_image open_position_def)
  finally show ?thesis .
qed

lemma merge_sell_unmatched:
  assumes "h \<in> set (merge_sell hold_period selected_stocks price_data)"
    and "\<forall>t\<in>set price_data. \<not> (t_Stkcd t = pos_Stkcd (fst (fst h)) \<and> pos_sell_date (fst (fst h)) \<le> Trddt t)"
  shows "snd h = None" and "isna (position_return h)"
proof -
  let ?P = "\<lambda>t. t_Stkcd t = pos_Stkcd (fst (fst h)) \<and> pos_sell_date (fst (fst h)) \<le> Trddt t"
  from assms(1) have "snd h = find ?P (sort_values Trddt price_data)"
    by (auto simp: merge_sell_def merge_asof_forward_def)
  moreover have "find ?P (sort_values Trddt price_data) = None"
    using assms(2) by (simp add: find_None_iff sort_values_def)
  ultimately show "snd h = None" by simp
  then show "isna (position_return h)"
    by (simp add: position_return_def sell_price_def isna_def)
qed

lemma groupby_mean_keys [simp]:
  "map fst (groupby_mean key col rows) = sort (remdups (map key rows))"
  by (simp add: groupby_mean_def comp_def)

lemma length_cumprod_from [simp]: "length (cumprod_from acc xs) = length xs"
  by (induction xs arbitrary: acc) auto

lemma length_compound [simp]: "length (compound rs) = length rs"
  by (simp add: compound_def cumprod_def)

lemma cumprod_from_nth:
  "k < length xs \<Longrightarrow>
   cumprod_from acc xs ! k =
     (if isna (xs ! k) then NaN
      else foldl fmul acc (filter (\<lambda>x. \<not> isna x) (take (Suc k) xs)))"
proof (induction xs arbitrary: acc k)
  case Nil
  then show ?case by simp
next
  case (Cons x xs)
  show ?case
  proof (cases k)
    case 0
    then show ?thesis by simp
  next
    case (Suc j)
    with Cons.prems have "j < length xs" by simp
    from Cons.IH [OF this] Suc show ?thesis by simp
  qed
qed

lemma isna_one_plus [simp]: "isna (fadd (Fin 1) r) = isna r"
  by (cases r) (simp_all add: isna_def)

lemma compound_nth:
  assumes "k < length rs"
  shows "compound rs ! k =
     (if isna (rs ! k) then NaN
      else fsub (foldl fmul (Fin 1)
                  (map (\<lambda>r. fadd (Fin 1) r) (filter (\<lambda>r. \<not> isna r) (take (Suc k) rs))))
             (Fin 1))"
proof -
  have "filter (\<lambda>x. \<not> isna x) (take (Suc k) (map (\<lambda>r. fadd (Fin 1) r) rs))
      = map (\<lambda>r. fadd (Fin 1) r) (filter (\<lambda>r. \<not> isna r) (take (Suc k) rs))"
    by (simp add: take_map filter_map comp_def)
  then show ?thesis
    using assms by (simp add: compound_def cumprod_def cumprod_from_nth)
qed

lemma portfolio_return_cols:
  "map pr_buy_date (portfolio_return hold_period selected_stocks price_data)
     = sort (remdups (map held_buy_date (merge_sell hold_period selected_stocks price_data)))"
  "map pr_return (portfolio_return hold_period selected_stocks price_data)
     = map (\<lambda>k. mean_skipna (map position_return
              (filter (\<lambda>h. held_buy_date h = k) (merge_sell hold_period selected_stocks price_data))))
         (sort (remdups (map held_buy_date (merge_sell hold_period selected_stocks price_data))))"
  "map cum_return (portfolio_return hold_period selected_stocks price_data)
     = compound (map pr_return (portfolio_return hold_period selected_stocks price_data))"
proof -
  let ?means = "groupby_mean held_buy_date position_return
                    (merge_sell hold_period selected_stocks price_data)"
  have len: "length ?means = length (compound (map snd ?means))" by simp
  have a: "map pr_buy_date (map2 (\<lambda>m c. \<lparr> pr_buy_date = fst m, pr_return = snd m,
              cum_return = c, pr_benchmark = None \<rparr>) ms cs) = map fst ms"
    and b: "map pr_return (map2 (\<lambda>m c. \<lparr> pr_buy_date = fst m, pr_return = snd m,
              cum_return = c, pr_benchmark = None \<rparr>) ms cs) = map snd ms"
    and c: "map cum_return (map2 (\<lambda>m c. \<lparr> pr_buy_date = fst m, pr_return = snd m,
              cum_return = c, pr_benchmark = None \<rparr>) ms cs) = cs"
    if "length ms = length cs" for ms :: "(date \<times> fval) list" and cs
    using that by (induction ms cs rule: list_induct2) simp_all
  show "map pr_buy_date (portfolio_return hold_period selected_stocks price_data)
     = sort (remdups (map held_buy_date (merge_sell hold_period selected_stocks price_data)))"
    unfolding portfolio_return_def Let_def a [OF len] by simp
  show r: "map pr_return (portfolio_return hold_period selected_stocks price_data)
     = map (\<lambda>k. mean_skipna (map position_return
              (filter (\<lambda>h. held_buy_date h = k) (merge_sell hold_period selected_stocks price_data))))
         (sort (remdups (map held_buy_date (merge_sell hold_period selected_stocks price_data))))"
    unfolding portfolio_return_def Let_def b [OF len] by (simp add: groupby_mean_def comp_def)
  show "map cum_return (portfolio_return hold_period selected_stocks price_data)
     = compound (map pr_return (portfolio_return hold_period selected_stocks price_data))"
    unfolding portfolio_return_def Let_def b [OF len] c [OF len] by simp
qed

lemma merge_benchmark_skip:
  "\<forall>p\<in>set ps. pr_buy_date p \<noteq> fst b \<Longrightarrow> merge_benchmark ps (b # bs) = merge_benchmark ps bs"
  unfolding merge_benchmark_def
  by (rule arg_cong [where f = concat], rule map_cong) auto

lemma merge_benchmark_zip:
  "map fst bench = map pr_buy_date portfolio \<Longrightarrow> distinct (map pr_buy_date portfolio) \<Longrightarrow>
   merge_benchmark portfolio bench = map2 (\<lambda>p b. p\<lparr>pr_benchmark := Some b\<rparr>) portfolio bench"
proof (induction portfolio arbitrary: bench)
  case Nil
  then show ?case by (simp add: merge_benchmark_def)
next
  case (Cons p ps)
  then obtain b bs where bench: "bench = b # bs" and b: "fst b = pr_buy_date p"
    and bs: "map fst bs = map pr_buy_date ps"
    by (cases bench) auto
  from Cons.prems(2) have notin: "pr_buy_date p \<notin> set (map pr_buy_date ps)" and d: "distinct (map pr_buy_date ps)"
    by simp_all
  have fl: "filter (\<lambda>x. fst x = pr_buy_date p) bs = []"
    using notin bs by (metis (mono_tags, lifting) filter_False image_eqI list.set_map)
  have "\<forall>q\<in>set ps. pr_buy_date q \<noteq> fst b" using notin b by (metis image_eqI list.set_map)
  then have tl: "merge_benchmark ps (b # bs) = merge_benchmark ps bs"
    by (rule merge_benchmark_skip)
  have "merge_benchmark (p # ps) (b # bs) = p\<lparr>pr_benchmark := Some b\<rparr> # merge_benchmark ps (b # bs)"
    by (simp add: merge_benchmark_def b fl)
  with tl Cons.IH [OF bs d] show ?case by (simp add: bench)
qed

lemma length_fillna [simp]: "length (fillna v xs) = length xs"
  by (simp add: fillna_def)

lemma length_ffill [simp]: "length (ffill xs) = length xs"
  by (simp add: ffill_def)

lemma benchmark_table_dates: "map fst (benchmark_table dates bm) = dates"
proof -
  define joined where "joined = merge_asof_backward (\<lambda>d. ()) (\<lambda>d. d) (\<lambda>b. ()) b_date dates
                     (sort_values b_date bm)"
  define close where "close = ffill (map (\<lambda>j. case snd j of None \<Rightarrow> NaN | Some b \<Rightarrow> b_close b) joined)"
  define br where "br = fillna (Fin 0) (map2 (\<lambda>c p. flog (fdiv c p)) close (shift 1 close))"
  have j: "map fst joined = dates" by (simp add: joined_def)
  then have lj: "length joined = length dates" by (metis length_map)
  have "length close = length dates" by (simp add: close_def lj)
  then have "length br = length dates" by (simp add: br_def)
  then have "length (map fst joined) = length (zip br (compound br))" by (simp add: j)
  then have "map fst (zip (map fst joined) (zip br (compound br))) = map fst joined"
    by (rule map_fst_zip)
  then show ?thesis
    unfolding benchmark_table_def Let_def joined_def [symmetric] close_def [symmetric]
      br_def [symmetric] by (simp add: j)
qed

lemma map2_benchmark_cols:
  "length ps = length bs \<Longrightarrow>
   map pr_buy_date (map2 (\<lambda>p b. p\<lparr>pr_benchmark := Some b\<rparr>) ps bs) = map pr_buy_date ps \<and>
   map pr_return (map2 (\<lambda>p b. p\<lparr>pr_benchmark := Some b\<rparr>) ps bs) = map pr_return ps \<and>
   map cum_return (map2 (\<lambda>p b. p\<lparr>pr_benchmark := Some b\<rparr>) ps bs) = map cum_return ps"
  by (induction ps bs rule: list_induct2) simp_all

lemma distinct_portfolio_dates:
  "distinct (map pr_buy_date (portfolio_return hold_period selected_stocks price_data))"
  "sorted (map pr_buy_date (portfolio_return hold_period selected_stocks price_data))"
  by (simp_all add: portfolio_return_cols(1))

lemma backtest_benchmark:
  "backtest_strategy selected_stocks price_data hold_period (Some bm) =
     map2 (\<lambda>p b. p\<lparr>pr_benchmark := Some b\<rparr>)
       (portfolio_return hold_period selected_stocks price_data)
       (benchmark_table (map pr_buy_date (portfolio_return hold_period selected_stocks price_data)) bm)"
  unfolding backtest_strategy_def Let_def option.case
  by (rule merge_benchmark_zip) (simp_all only: benchmark_table_dates distinct_portfolio_dates)

lemma backtest_None:
  "backtest_strategy selected_stocks price_data hold_period None =
     portfolio_return hold_period selected_stocks price_data"
  by (simp add: backtest_strategy_def)

lemma backtest_core:
  "map pr_buy_date (backtest_strategy selected_stocks price_data hold_period benchmark)
     = map pr_buy_date (portfolio_return hold_period selected_stocks price_data) \<and>
   map pr_return (backtest_strategy selected_stocks price_data hold_period benchmark)
     = map pr_return (portfolio_return hold_period selected_stocks price_data) \<and>
   map cum_return (backtest_strategy selected_stocks price_data hold_period benchmark)
     = map cum_return (portfolio_return hold_period selected_stocks price_data)"
proof (cases benchmark)
  case None
  then show ?thesis by (simp only: backtest_None simp_thms)
next
  case (Some bm)
  let ?P = "portfolio_return hold_period selected_stocks price_data"
  have "length (map fst (benchmark_table (map pr_buy_date ?P) bm)) = length (map pr_buy_date ?P)"
    by (simp only: benchmark_table_dates)
  then have len: "length ?P = length (benchmark_table (map pr_buy_date ?P) bm)"
    by (simp only: length_map)
  show ?thesis
    unfolding Some backtest_benchmark by (rule map2_benchmark_cols [OF len])
qed

lemma mean_skipna_filter:
  "mean_skipna vs = mean_skipna (filter (\<lambda>v. \<not> isna v) vs)"
  by (simp add: mean_skipna_def)

lemma mean_skipna_all_null: "\<forall>v\<in>set vs. isna v \<Longrightarrow> mean_skipna vs = NaN"
  by (simp add: mean_skipna_def filter_empty_conv)

lemma backtest_row:
  assumes "p \<in> set (backtest_strategy selected_stocks price_data hold_period benchmark)"
  obtains k where "k < length (backtest_strategy selected_stocks price_data hold_period benchmark)"
    and "p = backtest_strategy selected_stocks price_data hold_period benchmark ! k"
    and "pr_return p = mean_skipna (map position_return
           (filter (\<lambda>h. held_buy_date h = pr_buy_date p)
              (merge_sell hold_period selected_stocks price_data)))"
    and "cum_return p = compound (map pr_return
           (backtest_strategy selected_stocks price_data hold_period benchmark)) ! k"
proof -
  let ?out = "backtest_strategy selected_stocks price_data hold_period benchmark"
  let ?keys = "sort (remdups (map held_buy_date (merge_sell hold_period selected_stocks price_data)))"
  let ?mean = "\<lambda>k. mean_skipna (map position_return
              (filter (\<lambda>h. held_buy_date h = k) (merge_sell hold_period selected_stocks price_data)))"
  from assms obtain k where k: "k < length ?out" and p: "p = ?out ! k"
    by (auto simp: in_set_conv_nth)
  have d: "map pr_buy_date ?out = ?keys" and r: "map pr_return ?out = map ?mean ?keys"
    and c: "map cum_return ?out = compound (map pr_return ?out)"
    using backtest_core [of selected_stocks price_data hold_period benchmark]
    by (simp_all add: portfolio_return_cols)
  have lk: "k < length ?keys" using k arg_cong [OF d, of length] by simp
  have "pr_buy_date p = ?keys ! k"
    using arg_cong [OF d, of "\<lambda>xs. xs ! k"] k p by simp
  moreover have "pr_return p = ?mean (?keys ! k)"
    using arg_cong [OF r, of "\<lambda>xs. xs ! k"] k lk p by simp
  ultimately have 1: "pr_return p = ?mean (pr_buy_date p)" by simp
  have 2: "cum_return p = compound (map pr_return ?out) ! k"
    using arg_cong [OF c, of "\<lambda>xs. xs ! k"] k p by simp
  from k p 1 2 show ?thesis by (rule that)
qed

text \<open>
  Claim C4, as amended. A position whose instrument has no price row at or after its sell
  date has a null return. The portfolio return of a buy date is the mean of the returns of
  the positions opened on it that are not null, so a null return is left out of the
  aggregate. The returned table has a row for every buy date of the selected rows: a buy
  date all of whose positions have a null return is still there, with a null portfolio
  return and a null cumulative return. This holds with and without a benchmark.
\<close>

theorem backtest_null_return_excluded:
  "(\<forall>h\<in>set (merge_sell hold_period selected_stocks price_data).
      (\<forall>t\<in>set price_data. \<not> (t_Stkcd t = pos_Stkcd (fst (fst h)) \<and>
                                 pos_sell_date (fst (fst h)) \<le> Trddt t))
      \<longrightarrow> isna (position_return h)) \<and>
   (\<forall>p\<in>set (backtest_strategy selected_stocks price_data hold_period benchmark).
      pr_return p = mean_skipna (filter (\<lambda>v. \<not> isna v) (map position_return
          (filter (\<lambda>h. held_buy_date h = pr_buy_date p)
             (merge_sell hold_period selected_stocks price_data))))) \<and>
   set (map pr_buy_date (backtest_strategy selected_stocks price_data hold_period benchmark))
     = (\<lambda>r. e_Trddt (ev r)) ` set selected_stocks \<and>
   (\<forall>p\<in>set (backtest_strategy selected_stocks price_data hold_period benchmark).
      (\<forall>h\<in>set (merge_sell hold_period selected_stocks price_data).
          held_buy_date h = pr_buy_date p \<longrightarrow> isna (position_return h))
      \<longrightarrow> isna (pr_return p) \<and> isna (cum_return p))"
proof (intro conjI ballI impI)
  fix h
  assume "h \<in> set (merge_sell hold_period selected_stocks price_data)"
    and "\<forall>t\<in>set price_data. \<not> (t_Stkcd t = pos_Stkcd (fst (fst h)) \<and>
                                 pos_sell_date (fst (fst h)) \<le> Trddt t)"
  then show "isna (position_return h)" by (rule merge_sell_unmatched(2))
next
  fix p assume "p \<in> set (backtest_strategy selected_stocks price_data hold_period benchmark)"
  then show "pr_return p = mean_skipna (filter (\<lambda>v. \<not> isna v) (map position_return
          (filter (\<lambda>h. held_buy_date h = pr_buy_date p)
             (merge_sell hold_period selected_stocks price_data))))"
    by (rule backtest_row) (simp only: mean_skipna_filter [symmetric])
next
  show "set (map pr_buy_date (backtest_strategy selected_stocks price_data hold_period benchmark))
     = (\<lambda>r. e_Trddt (ev r)) ` set selected_stocks"
  proof -
    have "map pr_buy_date (backtest_strategy selected_stocks price_data hold_period benchmark)
        = sort (remdups (map held_buy_date (merge_sell hold_period selected_stocks price_data)))"
      using backtest_core [of selected_stocks price_data hold_period benchmark]
      by (simp add: portfolio_return_cols(1))
    then have "set (map pr_buy_date (backtest_strategy selected_stocks price_data hold_period benchmark))
        = held_buy_date ` set (merge_sell hold_period selected_stocks price_data)"
      by simp
    then show ?thesis by (simp only: set_merge_sell_buy_dates)
  qed
next
  fix p
  assume p: "p \<in> set (backtest_strategy selected_stocks price_data hold_period benchmark)"
    and nulls: "\<forall>h\<in>set (merge_sell hold_period selected_stocks price_data).
          held_buy_date h = pr_buy_date p \<longrightarrow> isna (position_return h)"
  let ?out = "backtest_strategy selected_stocks price_data hold_period benchmark"
  from p obtain k where k: "k < length ?out" and pk: "p = ?out ! k"
    and r: "pr_return p = mean_skipna (map position_return
           (filter (\<lambda>h. held_buy_date h = pr_buy_date p)
              (merge_sell hold_period selected_stocks price_data)))"
    and c: "cum_return p = compound (map pr_return ?out) ! k"
    by (rule backtest_row)
  have "pr_return p = NaN"
    unfolding r using nulls by (intro mean_skipna_all_null) auto
  then have n: "isna (pr_return p)" by (simp add: isna_def)
  have "compound (map pr_return ?out) ! k = NaN"
    using k n pk by (simp add: compound_nth)
  with c n show "isna (pr_return p)" "isna (cum_return p)" by (simp_all add: isna_def)
qed

theorem backtest_null_return_excluded_witness:
  "isna (position_return (hd (merge_sell 90 recent_selected recent_prices))) \<and>
   18400 \<in> set (map pr_buy_date (backtest_strategy recent_selected recent_prices 90 None)) \<and>
   map pr_return (backtest_strategy recent_selected recent_prices 90 None) = [NaN, Fin (1 / 10)]"
proof -
  note th = backtest_null_return_excluded [of 90 recent_selected recent_prices None]
  have ne: "hd (merge_sell 90 recent_selected recent_prices)
              \<in> set (merge_sell 90 recent_selected recent_prices)"
    by code_simp
  have un: "\<forall>t\<in>set recent_prices.
      \<not> (t_Stkcd t = pos_Stkcd (fst (fst (hd (merge_sell 90 recent_selected recent_prices)))) \<and>
         pos_sell_date (fst (fst (hd (merge_sell 90 recent_selected recent_prices)))) \<le> Trddt t)"
    by code_simp
  from th ne un have 1: "isna (position_return (hd (merge_sell 90 recent_selected recent_prices)))"
    by blast
  have "(\<lambda>r. e_Trddt (ev r)) ` set recent_selected = {18445, 18400}"
    by (simp add: recent_selected_def selected_at_def joined_def)
  with th have 2: "18400 \<in> set (map pr_buy_date (backtest_strategy recent_selected recent_prices 90 None))"
    by simp
  have 3: "map pr_return (backtest_strategy recent_selected recent_prices 90 None) = [NaN, Fin (1 / 10)]"
    unfolding backtest_None by code_simp
  from 1 2 3 show ?thesis by simp
qed

text \<open>
  One selected position whose instrument has no session at or after the sell date: the
  sell side of the join is null and the buy date is in the returned table, with nulls.
\<close>

theorem only_position_null_counterexample:
  "map snd (merge_sell 90 [selected_at ''000002'' 18400] recent_prices) = [None] \<and>
   map pr_buy_date (backtest_strategy [selected_at ''000002'' 18400] recent_prices 90 None) = [18400] \<and>
   map pr_return (backtest_strategy [selected_at ''000002'' 18400] recent_prices 90 None) = [NaN] \<and>
   map cum_return (backtest_strategy [selected_at ''000002'' 18400] recent_prices 90 None) = [NaN]"
  unfolding backtest_None by code_simp

text \<open>
  Claim C7, as amended. The buy dates of the returned table are distinct and ascending.
  The cumulative return at a row is null when the portfolio return of the row is null, and
  otherwise the product of \<open>1 + portfolio_return\<close> over the rows up to it whose portfolio
  return is not null, minus 1. When no portfolio return up to the row is null this is the
  product over the first \<open>k\<close> buy dates, minus 1, as the claim has it. The returns
  0.1, -0.05, 0.2 compound to 0.10, 0.045, 0.254 within a tolerance of one billionth (finite
  arithmetic is exact here; the floating-point results differ from these values by
  rounding only).
\<close>

theorem cumulative_return_compounds:
  "sorted (map pr_buy_date (backtest_strategy selected_stocks price_data hold_period benchmark)) \<and>
   distinct (map pr_buy_date (backtest_strategy selected_stocks price_data hold_period benchmark)) \<and>
   (\<forall>k<length (backtest_strategy selected_stocks price_data hold_period benchmark).
      cum_return (backtest_strategy selected_stocks price_data hold_period benchmark ! k) =
        (if isna (pr_return (backtest_strategy selected_stocks price_data hold_period benchmark ! k))
         then NaN
         else fsub (foldl fmul (Fin 1)
                (map (\<lambda>r. fadd (Fin 1) r)
                   (filter (\<lambda>r. \<not> isna r)
                      (take (Suc k) (map pr_return
                         (backtest_strategy selected_stocks price_data hold_period benchmark))))))
              (Fin 1))) \<and>
   (\<forall>k<length (backtest_strategy selected_stocks price_data hold_period benchmark).
      (\<forall>r\<in>set (take (Suc k) (map pr_return
              (backtest_strategy selected_stocks price_data hold_period benchmark))). \<not> isna r) \<longrightarrow>
      cum_return (backtest_strategy selected_stocks price_data hold_period benchmark ! k) =
        compounded_first (Suc k)
          (map pr_return (backtest_strategy selected_stocks price_data hold_period benchmark))) \<and>
   list_all2 (within_tolerance (1 / 10 ^ 9))
     (compound [Fin (1 / 10), Fin (- (5 / 100)), Fin (2 / 10)])
     [Fin (10 / 100), Fin (45 / 1000), Fin (254 / 1000)]"
proof -
  let ?out = "backtest_strategy selected_stocks price_data hold_period benchmark"
  note core = backtest_core [of selected_stocks price_data hold_period benchmark]
  have s: "sorted (map pr_buy_date ?out)" and d: "distinct (map pr_buy_date ?out)"
    using core by (simp_all add: distinct_portfolio_dates)
  have c: "map cum_return ?out = compound (map pr_return ?out)"
    using core by (simp add: portfolio_return_cols(3))
  have nth: "cum_return (?out ! k) =
        (if isna (pr_return (?out ! k)) then NaN
         else fsub (foldl fmul (Fin 1)
                (map (\<lambda>r. fadd (Fin 1) r)
                   (filter (\<lambda>r. \<not> isna r) (take (Suc k) (map pr_return ?out)))))
              (Fin 1))" if "k < length ?out" for k
  proof -
    have "cum_return (?out ! k) = compound (map pr_return ?out) ! k"
      using arg_cong [OF c, of "\<lambda>xs. xs ! k"] that by simp
    then show ?thesis using that by (simp add: compound_nth)
  qed
  have all: "cum_return (?out ! k) = compounded_first (Suc k) (map pr_return ?out)"
    if "k < length ?out" "\<forall>r\<in>set (take (Suc k) (map pr_return ?out)). \<not> isna r" for k
  proof -
    have f: "filter (\<lambda>r. \<not> isna r) (take (Suc k) (map pr_return ?out))
          = take (Suc k) (map pr_return ?out)"
      using that(2) by simp
    have "k < length (take (Suc k) (map pr_return ?out))" using that(1) by simp
    then have "take (Suc k) (map pr_return ?out) ! k \<in> set (take (Suc k) (map pr_return ?out))"
      by (rule nth_mem)
    then have "pr_return (?out ! k) \<in> set (take (Suc k) (map pr_return ?out))"
      using that(1) by simp
    with that(2) have "\<not> isna (pr_return (?out ! k))" by blast
    with nth [OF that(1)] show ?thesis
      unfolding f compounded_first_def by simp
  qed
  have ex: "list_all2 (within_tolerance (1 / 10 ^ 9))
     (compound [Fin (1 / 10), Fin (- (5 / 100)), Fin (2 / 10)])
     [Fin (10 / 100), Fin (45 / 1000), Fin (254 / 1000)]"
    by (simp add: compound_def cumprod_def fsub_def isna_def within_tolerance_def)
  show ?thesis
  proof (intro conjI allI impI)
    show "sorted (map pr_buy_date ?out)" by (rule s)
    show "distinct (map pr_buy_date ?out)" by (rule d)
    show "list_all2 (within_tolerance (1 / 10 ^ 9))
     (compound [Fin (1 / 10), Fin (- (5 / 100)), Fin (2 / 10)])
     [Fin (10 / 100), Fin (45 / 1000), Fin (254 / 1000)]" by (rule ex)
  next
    fix k assume "k < length ?out"
    then show "cum_return (?out ! k) =
        (if isna (pr_return (?out ! k)) then NaN
         else fsub (foldl fmul (Fin 1)
                (map (\<lambda>r. fadd (Fin 1) r)
                   (filter (\<lambda>r. \<not> isna r) (take (Suc k) (map pr_return ?out)))))
              (Fin 1))" by (rule nth)
  next
    fix k assume "k < length ?out"
      and "\<forall>r\<in>set (take (Suc k) (map pr_return ?out)). \<not> isna r"
    then show "cum_return (?out ! k) = compounded_first (Suc k) (map pr_return ?out)"
      by (rule all)
  qed
qed

theorem cumulative_return_compounds_witness:
  "list_all2 (within_tolerance (1 / 10 ^ 9))
     (map pr_return (backtest_strategy three_selected three_prices 90 None))
     [Fin (1 / 10), Fin (- (5 / 100)), Fin (2 / 10)] \<and>
   within_tolerance (1 / 10 ^ 9)
     (cum_return (backtest_strategy three_selected three_prices 90 None ! 2))
     (Fin (254 / 1000)) \<and>
   cum_return (backtest_strategy three_selected three_prices 90 None ! 2)
     = compounded_first 3 (map pr_return (backtest_strategy three_selected three_prices 90 None))"
proof -
  let ?out = "backtest_strategy three_selected three_prices 90 None"
  have r: "map pr_return ?out = [Fin (1 / 10), Fin (- (1 / 20)), Fin (1 / 5)]"
    unfolding backtest_None by code_simp
  have l: "2 < length ?out" using arg_cong [OF r, of length] by simp
  have v: "compounded_first 3 [Fin (1 / 10), Fin (- (1 / 20)), Fin (1 / 5)] = Fin (127 / 500)"
    by (simp add: compounded_first_def fsub_def)
  have n: "\<forall>x\<in>set (take (Suc 2) (map pr_return ?out)). \<not> isna x"
    unfolding r by (simp add: isna_def)
  from cumulative_return_compounds [of three_selected three_prices 90 None] l n
  have c: "cum_return (?out ! 2) = compounded_first (Suc 2) (map pr_return ?out)"
    by blast
  then have c3: "cum_return (?out ! 2) = compounded_first 3 (map pr_return ?out)"
    by (simp add: eval_nat_numeral)
  then have "cum_return (?out ! 2) = Fin (127 / 500)"
    unfolding r using v by simp
  then have 1: "within_tolerance (1 / 10 ^ 9) (cum_return (?out ! 2)) (Fin (254 / 1000))"
    by (simp add: within_tolerance_def)
  have 2: "list_all2 (within_tolerance (1 / 10 ^ 9)) (map pr_return ?out)
     [Fin (1 / 10), Fin (- (5 / 100)), Fin (2 / 10)]"
    unfolding r by (simp add: within_tolerance_def)
  from 1 2 c3 show ?thesis by simp
qed

text \<open>
  A null portfolio return at the first buy date: the product of \<open>1 + portfolio_return\<close> over
  the first two buy dates has a null factor and is null, while the cumulative return the
  code gives at the second buy date is not null.
\<close>

theorem cumulative_return_null_counterexample:
  "map pr_buy_date (backtest_strategy recent_selected recent_prices 90 None) = [18400, 18445] \<and>
   map isna (map pr_return (backtest_strategy recent_selected recent_prices 90 None))
     = [True, False] \<and>
   map isna (map cum_return (backtest_strategy recent_selected recent_prices 90 None))
     = [True, False] \<and>
   isna (compounded_first 2
           (map pr_return (backtest_strategy recent_selected recent_prices 90 None)))"
  unfolding backtest_None by code_simp

section \<open>Effects of the stages on the store\<close>

lemma deref_Some: "deref h a = Some f \<longleftrightarrow> a < length h \<and> f = h ! a"
  by (auto simp: deref_def)

lemma trading_of_Some: "trading_of f = Some rows \<longleftrightarrow> f = Trading rows"
  by (cases f) auto

lemma disclosures_of_Some: "disclosures_of f = Some rows \<longleftrightarrow> f = Disclosures rows"
  by (cases f) auto

lemma selected_of_Some: "selected_of f = Some rows \<longleftrightarrow> f = Selected rows"
  by (cases f) auto

lemma benchmark_of_Some: "benchmark_of f = Some rows \<longleftrightarrow> f = Benchmark rows"
  by (cases f) auto

lemma to_datetime_rows [simp]:
  "map (\<lambda>t. t\<lparr>Trddt := to_datetime (Trddt t)\<rparr>) price = price"
  "map (\<lambda>x. x\<lparr>b_date := to_datetime (b_date x)\<rparr>) bm = bm"
  by (simp_all add: to_datetime_def)

lemma set_dates: "set_sell_date hold_period (set_buy_date r) = assign_dates hold_period r"
  by (simp add: set_sell_date_def set_buy_date_def assign_dates_def to_datetime_def)

lemma merge_all_data_frame:
  assumes "merge_all_data h c = Some (h', c')"
  shows "(\<forall>a<length h. h' ! a = h ! a) \<and> raw_data c' = raw_data c"
  using assms
  by (auto simp: merge_all_data_def alloc_def bind_eq_Some_conv nth_append Let_def split: prod.splits)

lemma filter_data_store_frame:
  assumes "filter_data_store h c = Some (h', r)"
  shows "(\<forall>a<length h. h' ! a = h ! a) \<and> r = length h"
  using assms
  by (auto simp: filter_data_store_def alloc_def bind_eq_Some_conv nth_append)

lemma strategy_store_frame:
  assumes "strategy_store h gap_events fin_data = Some (h', r)"
  shows "(\<forall>a<length h. h' ! a = h ! a) \<and> r = length h"
  using assms
  by (auto simp: strategy_store_def alloc_def bind_eq_Some_conv nth_append)

lemma count_num_effect:
  assumes "count_num h c = Some h'"
  shows "\<exists>a rows. processed_data c ''stk_data'' = Some a \<and> a < length h \<and> h ! a = Trading rows \<and>
           h' = h[a := Trading (map (\<lambda>t. t\<lparr>year := Some (year_of (Trddt t)),
                                            quarter := Some (quarter_of (Trddt t))\<rparr>) rows)]"
  using assms
  by (auto simp: count_num_def setitem_def bind_eq_Some_conv deref_Some trading_of_Some comp_def Let_def)

lemma backtest_store_effect:
  assumes "backtest_store h selected_stocks price_data hold_period benchmark = Some (h', r)"
  shows "(\<forall>a<length h. a \<noteq> selected_stocks \<longrightarrow> h' ! a = h ! a) \<and>
         (\<exists>rows. selected_stocks < length h \<and> h ! selected_stocks = Selected rows \<and>
                 h' ! selected_stocks = Selected (map (assign_dates hold_period) rows)) \<and>
         r = length h"
proof -
  from assms obtain price selected where
    p: "price_data < length h" "h ! price_data = Trading price"
    and s: "selected_stocks < length h" "h ! selected_stocks = Selected selected"
    by (auto simp: backtest_store_def setitem_def bind_eq_Some_conv deref_Some trading_of_Some
        selected_of_Some Let_def nth_list_update split: if_splits)
  from p s have ne: "price_data \<noteq> selected_stocks" by auto
  let ?h3 = "h[selected_stocks := Selected (map (assign_dates hold_period) selected)]"
  show ?thesis
  proof (cases benchmark)
    case None
    with assms p s ne have "h' = ?h3 @ [Portfolio (backtest_strategy selected price hold_period None)]"
      and "r = length h"
      by (auto simp: backtest_store_def setitem_def bind_eq_Some_conv deref_Some trading_of_Some
          selected_of_Some alloc_def set_dates comp_def Let_def nth_list_update
          list_update_same_conv [THEN iffD2] split: if_splits)
    with s show ?thesis by (auto simp: nth_append)
  next
    case (Some b)
    with assms p s ne obtain bm where b: "b < length h" "?h3 ! b = Benchmark bm"
      and h': "h' = ?h3 @ [Portfolio (backtest_strategy selected price hold_period (Some bm))]"
      and "r = length h"
      by (auto simp: backtest_store_def setitem_def bind_eq_Some_conv deref_Some trading_of_Some
          selected_of_Some benchmark_of_Some alloc_def set_dates comp_def Let_def nth_list_update
          list_update_same_conv [THEN iffD2] split: if_splits)
    with s show ?thesis by (auto simp: nth_append)
  qed
qed

text \<open>
  Claim C9, as amended. After the Merger, the Gap Event Detector or the Strategy Selector
  has run, every table that existed before is unchanged and the result is a new table. The
  Backtest Engine leaves every table other than the selected-stocks table it was handed
  unchanged (the price table and the benchmark get their date column assigned the same
  dates), writes the columns \<^verbatim>\<open>buy_date\<close> and \<^verbatim>\<open>sell_date\<close> into the selected-stocks
  table, and returns the portfolio as a new table. \<^verbatim>\<open>count_num\<close> writes the columns \<^verbatim>\<open>year\<close> and \<^verbatim>\<open>quarter\<close> into the trading table
  that the Merger stored.
\<close>

theorem stage_effects_on_inputs:
  "(merge_all_data h c = Some (h1, c1) \<longrightarrow>
      (\<forall>a<length h. h1 ! a = h ! a) \<and> raw_data c1 = raw_data c) \<and>
   (filter_data_store h c = Some (h2, r2) \<longrightarrow>
      (\<forall>a<length h. h2 ! a = h ! a) \<and> r2 = length h) \<and>
   (strategy_store h gap_events fin_data = Some (h3, r3) \<longrightarrow>
      (\<forall>a<length h. h3 ! a = h ! a) \<and> r3 = length h) \<and>
   (backtest_store h selected_stocks price_data hold_period benchmark = Some (h4, r4) \<longrightarrow>
      (\<forall>a<length h. a \<noteq> selected_stocks \<longrightarrow> h4 ! a = h ! a) \<and>
      (\<exists>rows. selected_stocks < length h \<and> h ! selected_stocks = Selected rows \<and>
              h4 ! selected_stocks = Selected (map (assign_dates hold_period) rows)) \<and>
      r4 = length h) \<and>
   (count_num h c = Some h5 \<longrightarrow>
      (\<exists>a rows. processed_data c ''stk_data'' = Some a \<and> a < length h \<and> h ! a = Trading rows \<and>
           h5 = h[a := Trading (map (\<lambda>t. t\<lparr>year := Some (year_of (Trddt t)),
                                            quarter := Some (quarter_of (Trddt t))\<rparr>) rows)]))"
  using merge_all_data_frame [of h c h1 c1] filter_data_store_frame [of h c h2 r2]
    strategy_store_frame [of h gap_events fin_data h3 r3]
    backtest_store_effect [of h selected_stocks price_data hold_period benchmark h4 r4]
    count_num_effect [of h c h5]
  by blast

lemma sample_backtest_store:
  "backtest_store sample_store 0 1 90 None =
     Some ([Selected (map (assign_dates 90) recent_selected), Trading recent_prices,
            Portfolio (backtest_strategy recent_selected recent_prices 90 None)], 2)"
  by (simp add: backtest_store_def sample_store_def deref_def setitem_def alloc_def
      set_dates comp_def)

text \<open>
  The selected-stocks table at address 0 before and after a backtest: it had no
  \<^verbatim>\<open>buy_date\<close> column and has one afterwards.
\<close>

theorem backtest_writes_selected_counterexample:
  "map_option (\<lambda>x. fst x ! 0) (backtest_store sample_store 0 1 90 None)
     = Some (Selected (map (assign_dates 90) recent_selected)) \<and>
   sample_store ! 0 = Selected recent_selected \<and>
   map buy_date recent_selected = [None, None] \<and>
   map buy_date (map (assign_dates 90) recent_selected) = [Some 18445, Some 18400] \<and>
   map sell_date (map (assign_dates 90) recent_selected) = [Some 18535, Some 18490]"
  unfolding sample_backtest_store
  by (simp add: sample_store_def recent_selected_def selected_at_def joined_def assign_dates_def
      add_days_def)

lemma sample_merge_all_data:
  "merge_all_data raw_store raw_constructor = Some (merged_store, merged_constructor)"
  by (simp add: merge_all_data_def raw_trading_def raw_store_def raw_constructor_def deref_def
      alloc_def merged_store_def merged_constructor_def eval_nat_numeral)

lemma sample_filter_data_store:
  "filter_data_store merged_store merged_constructor =
     Some (merged_store @ [Events (filter_data scenario_stk scenario_pft)], 10)"
  by (simp add: filter_data_store_def merged_store_def merged_constructor_def raw_store_def
      deref_def alloc_def)

lemma sample_strategy_store:
  "strategy_store growth_store 0 1 =
     Some (growth_store @ [Selected (strategy_consistent_growth [event_2021, event_2020] growth_table)], 2)"
  by (simp add: strategy_store_def growth_store_def deref_def alloc_def)

lemma sample_count_num:
  "count_num merged_store merged_constructor =
     Some (merged_store[8 := Trading (map (\<lambda>t. t\<lparr>year := Some (year_of (Trddt t)),
                                            quarter := Some (quarter_of (Trddt t))\<rparr>) scenario_stk)])"
  by (simp add: count_num_def merged_store_def merged_constructor_def raw_store_def
      deref_def setitem_def comp_def)

theorem stage_effects_on_inputs_witness:
  "merge_all_data raw_store raw_constructor = Some (merged_store, merged_constructor) \<and>
   merged_store ! 0 = raw_store ! 0 \<and> merged_store ! 6 = raw_store ! 6 \<and>
   filter_data_store merged_store merged_constructor =
     Some (merged_store @ [Events (filter_data scenario_stk scenario_pft)], 10) \<and>
   (merged_store @ [Events (filter_data scenario_stk scenario_pft)]) ! 8 = merged_store ! 8 \<and>
   strategy_store growth_store 0 1 =
     Some (growth_store @ [Selected (strategy_consistent_growth [event_2021, event_2020] growth_table)], 2) \<and>
   (growth_store @ [Selected (strategy_consistent_growth [event_2021, event_2020] growth_table)]) ! 1
     = growth_store ! 1 \<and>
   map_option (\<lambda>x. fst x ! 1) (backtest_store sample_store 0 1 90 None) = Some (sample_store ! 1) \<and>
   map_option (\<lambda>x. fst x ! 0) (backtest_store sample_store 0 1 90 None)
     = Some (Selected (map (assign_dates 90) recent_selected)) \<and>
   count_num merged_store merged_constructor \<noteq> None"
proof -
  have l: "(0::nat) < length raw_store" "(6::nat) < length raw_store"
    "(8::nat) < length merged_store" "(1::nat) < length growth_store"
    "(1::nat) < length sample_store"
    by (simp_all add: raw_store_def merged_store_def growth_store_def sample_store_def)
  from stage_effects_on_inputs [where h = raw_store and c = raw_constructor
      and ?h1.0 = merged_store and ?c1.0 = merged_constructor] sample_merge_all_data l
  have 1: "merged_store ! 0 = raw_store ! 0" "merged_store ! 6 = raw_store ! 6"
    by blast+
  from stage_effects_on_inputs [where h = merged_store and c = merged_constructor
      and ?h2.0 = "merged_store @ [Events (filter_data scenario_stk scenario_pft)]" and ?r2.0 = 10]
    sample_filter_data_store l
  have 2: "(merged_store @ [Events (filter_data scenario_stk scenario_pft)]) ! 8 = merged_store ! 8"
    by blast
  from stage_effects_on_inputs [where h = growth_store and gap_events = 0 and fin_data = 1
      and ?h3.0 = "growth_store @ [Selected (strategy_consistent_growth [event_2021, event_2020] growth_table)]"
      and ?r3.0 = 2]
    sample_strategy_store l
  have 3: "(growth_store @ [Selected (strategy_consistent_growth [event_2021, event_2020] growth_table)]) ! 1
     = growth_store ! 1"
    by blast
  have 4: "map_option (\<lambda>x. fst x ! 1) (backtest_store sample_store 0 1 90 None) = Some (sample_store ! 1)"
    "map_option (\<lambda>x. fst x ! 0) (backtest_store sample_store 0 1 90 None)
     = Some (Selected (map (assign_dates 90) recent_selected))"
    unfolding sample_backtest_store by (simp_all add: sample_store_def)
  have 5: "count_num merged_store merged_constructor \<noteq> None"
    by (simp add: sample_count_num)
  from 1 2 3 4 5 sample_merge_all_data sample_filter_data_store sample_strategy_store
  show ?thesis by simp
qed

end
